theory Spec2Isabelle
  imports
    Main
    "HOL-Library.Char_ord"
    "HOL-Library.List_Lexorder"
    "HOL-Library.Product_Lexorder"
    "HOL-Library.AList"
begin

section \<open>Python strings\<close>

text \<open>
  A Python \<open>str\<close> is a \<^typ>\<open>string\<close>. The character-level operations of
  \<open>str\<close> and \<open>re\<close> (\<open>strip\<close>, \<open>lower\<close>, \<open>split\<close>, \<open>\s\<close>, \<open>\w\<close>) are modelled on
  ASCII: a character outside ASCII stands for itself, is no white space, no word
  character and has no case. The model is exact for ASCII text.
\<close>

definition py_isspace :: "char \<Rightarrow> bool" where
  \<comment> \<open>\<open>str.isspace\<close> on ASCII: TAB, LF, VT, FF, CR, the separators FS GS RS US, and space.\<close>
  "py_isspace c =
     (c \<in> set [CHR 0x09, CHR 0x0A, CHR 0x0B, CHR 0x0C, CHR 0x0D,
                 CHR 0x1C, CHR 0x1D, CHR 0x1E, CHR 0x1F, CHR 0x20])"

definition py_strip :: "string \<Rightarrow> string" where
  "py_strip s = rev (dropWhile py_isspace (rev (dropWhile py_isspace s)))"

definition startswith :: "string \<Rightarrow> string \<Rightarrow> bool" where
  \<comment> \<open>\<open>s.startswith(p)\<close>\<close>
  "startswith s p = (take (length p) s = p)"

fun py_join :: "string \<Rightarrow> string list \<Rightarrow> string" where
  \<comment> \<open>\<open>sep.join(xs)\<close>\<close>
  "py_join sep [] = []"
| "py_join sep [x] = x"
| "py_join sep (x # y # ys) = x @ sep @ py_join sep (y # ys)"

definition newline :: string where
  "newline = [CHR 0x0A]"

section \<open>Exceptions\<close>

text \<open>
  The subclasses of \<open>Exception\<close> that the handlers of \<open>terminal.py\<close> tell apart; the
  argument is \<open>str(e)\<close>. \<open>PermissionError\<close> and \<open>FileNotFoundError\<close> are subclasses of
  \<open>OSError\<close>; \<open>OtherException\<close> is any other subclass of \<open>Exception\<close>.
\<close>

datatype exn =
    PermissionError string
  | FileNotFoundError string
  | OSError string
  | ValueError string
  | IndexError string
  | TimeoutExpired string
  | OtherException string

fun str_of :: "exn \<Rightarrow> string" where
  "str_of (PermissionError d) = d"
| "str_of (FileNotFoundError d) = d"
| "str_of (OSError d) = d"
| "str_of (ValueError d) = d"
| "str_of (IndexError d) = d"
| "str_of (TimeoutExpired d) = d"
| "str_of (OtherException d) = d"

section \<open>The operating system\<close>

text \<open>
  The state outside the Python objects: the working directory of the process
  (\<open>os.getcwd()\<close>, set by \<open>os.chdir\<close>) and the rest of the machine (file system, process
  table, process environment), which the model does not look into.
\<close>

record 'a world =
  process_cwd :: string
  machine :: 'a

text \<open>What \<open>subprocess.run(..., capture_output=True, text=True)\<close> returns.\<close>

datatype completed = CompletedProcess (stdout: string) (stderr: string) (returncode: int)

text \<open>The builtin commands of \<open>PythonTerminal.builtin_commands\<close>, by handler.\<close>

datatype builtin =
    Cd | Pwd | Ls | Mkdir | Rmdir | Rm | Touch | Cat | Echo | Cp | Mv | Find | Grep
  | Ps | Kill | Top | Df | Free | Whoami | Date | History | Clear | Exit | Help
  | Alias | Env | SetVar | Tree

text \<open>
  The library and system calls \<open>terminal.py\<close> makes are parameters of the model. A call
  that can raise returns the exception (\<open>Inl e\<close>, or \<open>Some e\<close> beside the world it
  leaves); a call that changes the machine returns the new world. \<open>sys_handler\<close>
  stands for the bodies of the handlers that consist of system calls only (\<open>mkdir\<close>,
  \<open>rmdir\<close>, \<open>touch\<close>, \<open>cat\<close>, \<open>cp\<close>, \<open>mv\<close>, \<open>find\<close>, \<open>grep\<close>, \<open>ps\<close>, \<open>kill\<close>, \<open>top\<close>, \<open>df\<close>,
  \<open>free\<close>, \<open>whoami\<close>, \<open>date\<close>): each reads
  \<open>self.current_directory\<close> at most and assigns no field of \<open>self\<close>.
  Of the functions of \<open>os.path\<close>, \<open>isabs\<close>, \<open>join\<close> and \<open>basename\<close> work on the text of a
  path alone; \<open>isdir\<close>, \<open>isfile\<close> and \<open>exists\<close> answer \<open>False\<close> where the system call fails
  and do not raise. \<open>expanduser\<close> and \<open>abspath\<close> can raise: the first looks the user up
  (\<open>ValueError\<close> for a name that holds a null character), the second asks for the
  working directory of the process when the path is relative (\<open>FileNotFoundError\<close> when
  that directory is gone).
\<close>

record 'a os =
  shlex_split :: "string \<Rightarrow> exn + string list"
  subprocess_run :: "'a world \<Rightarrow> string list \<Rightarrow> string \<Rightarrow> (exn + completed) \<times> 'a world"
  environ :: "'a world \<Rightarrow> (string \<times> string) list"
  putenv :: "'a world \<Rightarrow> string \<Rightarrow> string \<Rightarrow> exn option \<times> 'a world"
  expanduser :: "'a world \<Rightarrow> string \<Rightarrow> exn + string"
  isabs :: "string \<Rightarrow> bool"
  path_join :: "string \<Rightarrow> string \<Rightarrow> string"
  abspath :: "'a world \<Rightarrow> string \<Rightarrow> exn + string"
  basename :: "string \<Rightarrow> string"
  isdir :: "'a world \<Rightarrow> string \<Rightarrow> bool"
  isfile :: "'a world \<Rightarrow> string \<Rightarrow> bool"
  path_exists :: "'a world \<Rightarrow> string \<Rightarrow> bool"
  listdir :: "'a world \<Rightarrow> string \<Rightarrow> exn + string list"
  stat_line :: "'a world \<Rightarrow> string \<Rightarrow> string option"
  chdir_raises :: "'a world \<Rightarrow> string \<Rightarrow> exn option"
  os_remove :: "'a world \<Rightarrow> string \<Rightarrow> exn option \<times> 'a world"
  rmtree :: "'a world \<Rightarrow> string \<Rightarrow> exn option \<times> 'a world"
  sys_handler :: "builtin \<Rightarrow> 'a world \<Rightarrow> string \<Rightarrow> string list \<Rightarrow> (exn + string) \<times> 'a world"

definition os_chdir :: "'a os \<Rightarrow> 'a world \<Rightarrow> string \<Rightarrow> exn + 'a world" where
  \<comment> \<open>\<open>os.chdir(path)\<close>: raises, or makes \<open>path\<close> the working directory of the process.\<close>
  "os_chdir os w path =
     (case chdir_raises os w path of
        Some e \<Rightarrow> Inl e
      | None \<Rightarrow> Inr (w\<lparr>process_cwd := path\<rparr>))"

section \<open>The session: \<open>PythonTerminal\<close>\<close>

record session =
  current_directory :: string
  command_history :: "string list"
  aliases :: "(string \<times> string) list"
  environment_vars :: "(string \<times> string) list"

text \<open>
  The two dictionaries are association lists in insertion order, as a Python \<open>dict\<close>
  iterates: \<open>d[k] = v\<close> is \<^const>\<open>AList.update\<close>, \<open>k in d\<close> and \<open>d[k]\<close> are
  \<^const>\<open>map_of\<close>.
\<close>

definition init :: "'a os \<Rightarrow> 'a world \<Rightarrow> session" where
  \<comment> \<open>\<open>PythonTerminal.__init__\<close>\<close>
  "init os w =
     \<lparr> current_directory = process_cwd w,
       command_history = [],
       aliases = [],
       environment_vars = environ os w \<rparr>"

definition builtin_commands :: "(string \<times> builtin) list" where
  "builtin_commands =
     [ (''cd'', Cd), (''pwd'', Pwd), (''ls'', Ls), (''dir'', Ls), (''mkdir'', Mkdir),
       (''rmdir'', Rmdir), (''rm'', Rm), (''del'', Rm), (''touch'', Touch), (''cat'', Cat),
       (''type'', Cat), (''echo'', Echo), (''cp'', Cp), (''copy'', Cp), (''mv'', Mv),
       (''move'', Mv), (''find'', Find), (''grep'', Grep), (''ps'', Ps), (''kill'', Kill),
       (''top'', Top), (''df'', Df), (''free'', Free), (''whoami'', Whoami), (''date'', Date),
       (''history'', History), (''clear'', Clear), (''cls'', Clear), (''exit'', Exit),
       (''quit'', Exit), (''help'', Help), (''alias'', Alias), (''env'', Env),
       (''set'', SetVar), (''tree'', Tree) ]"

subsection \<open>External commands\<close>

definition execute_external_command ::
  "'a os \<Rightarrow> 'a world \<Rightarrow> session \<Rightarrow> string \<Rightarrow> string list \<Rightarrow> (string \<times> int) \<times> 'a world" where
  "execute_external_command os w s command args =
     (case subprocess_run os w ([command] @ args) (current_directory s) of
        (Inr result, w') \<Rightarrow>
          (let output = stdout result;
               output = (if stderr result \<noteq> [] then output @ stderr result else output)
           in ((output, returncode result), w'))
      | (Inl (TimeoutExpired d), w') \<Rightarrow> ((''Command timed out after 30 seconds'', 1), w')
      | (Inl (FileNotFoundError d), w') \<Rightarrow> ((''Command not found: '' @ command, 127), w')
      | (Inl e, w') \<Rightarrow> ((''Error executing external command: '' @ str_of e, 1), w'))"

subsection \<open>Builtin commands\<close>

text \<open>
  A handler returns its output, or raises (\<open>Inl\<close>), and leaves a session and a world.
  A handler that neither raises nor writes is a function to its output.
\<close>

type_synonym 'a outcome = "(exn + string) \<times> session \<times> 'a world"

definition cd_given :: "'a os \<Rightarrow> 'a world \<Rightarrow> session \<Rightarrow> string list \<Rightarrow> exn + string" where
  \<comment> \<open>\<open>cmd_cd\<close>, lines 132 to 140, before the \<open>try\<close>: the path asked for. An exception of
      \<open>expanduser\<close> leaves the handler.\<close>
  "cd_given os w s args =
     (case args of
        [] \<Rightarrow> expanduser os w ''~''
      | a # _ \<Rightarrow>
          if startswith a ''~'' then expanduser os w a
          else if \<not> isabs os a then Inr (path_join os (current_directory s) a)
          else Inr a)"

definition cd_except :: "string \<Rightarrow> exn \<Rightarrow> string" where
  \<comment> \<open>The two \<open>except\<close> clauses of \<open>cmd_cd\<close>, lines 150 to 153; \<open>target\<close> is the variable as it
      stands when the exception is raised.\<close>
  "cd_except target e =
     (case e of
        PermissionError d \<Rightarrow> ''Permission denied: '' @ target
      | _ \<Rightarrow> ''Error changing directory: '' @ str_of e)"

definition cmd_cd :: "'a os \<Rightarrow> 'a world \<Rightarrow> session \<Rightarrow> string list \<Rightarrow> 'a outcome" where
  "cmd_cd os w s args =
     (case cd_given os w s args of
        Inl e \<Rightarrow> (Inl e, s, w)
      | Inr given \<Rightarrow>
          (case abspath os w given of
             Inl e \<Rightarrow> (Inr (cd_except given e), s, w)
           | Inr target \<Rightarrow>
               if isdir os w target then
                 (let s' = s\<lparr>current_directory := target\<rparr> in
                  case os_chdir os w target of
                    Inr w' \<Rightarrow> (Inr (''Changed directory to: '' @ target), s', w')
                  | Inl e \<Rightarrow> (Inr (cd_except target e), s', w))
               else (Inr (''Directory not found: '' @ target), s, w)))"

definition cd_target :: "'a os \<Rightarrow> 'a world \<Rightarrow> session \<Rightarrow> string list \<Rightarrow> exn + string" where
  \<comment> \<open>The value of \<open>target\<close> after line 143: the path asked for, made absolute by
      \<open>os.path.abspath\<close>; \<open>Inl\<close> when \<open>expanduser\<close> or \<open>abspath\<close> raises.\<close>
  "cd_target os w s args =
     (case cd_given os w s args of
        Inl e \<Rightarrow> Inl e
      | Inr given \<Rightarrow> abspath os w given)"

definition cmd_pwd :: "session \<Rightarrow> string list \<Rightarrow> string" where
  "cmd_pwd s args = current_directory s"

definition format_file_info :: "'a os \<Rightarrow> 'a world \<Rightarrow> string \<Rightarrow> bool \<Rightarrow> string" where
  \<comment> \<open>The long line is \<open>stat_line\<close>; \<open>None\<close> is the \<open>except Exception\<close> branch.\<close>
  "format_file_info os w path long_format =
     (if \<not> long_format then basename os path
      else (case stat_line os w path of
              Some line \<Rightarrow> line
            | None \<Rightarrow> basename os path))"

definition cmd_ls :: "'a os \<Rightarrow> 'a world \<Rightarrow> session \<Rightarrow> string list \<Rightarrow> string" where
  "cmd_ls os w s args =
     (let path = (case args of [] \<Rightarrow> current_directory s | a # _ \<Rightarrow> a);
          show_hidden = (''-a'' \<in> set args \<or> ''--all'' \<in> set args);
          long_format = (''-l'' \<in> set args \<or> ''--long'' \<in> set args)
      in
      if \<not> path_exists os w path then ''Path not found: '' @ path
      else if isfile os w path then format_file_info os w path long_format
      else
        (case listdir os w path of
           Inl (PermissionError d) \<Rightarrow> ''Permission denied: '' @ path
         | Inl e \<Rightarrow> ''Error listing directory: '' @ str_of e
         | Inr entries \<Rightarrow>
             (let items =
                map (\<lambda>item. if long_format
                             then format_file_info os w (path_join os path item) True
                             else item)
                  (filter (\<lambda>item. \<not> (\<not> show_hidden \<and> startswith item ''.'')) entries)
              in if items \<noteq> [] then py_join newline (sort items) else ''Directory is empty'')))"

definition rm_except :: "bool \<Rightarrow> string \<Rightarrow> exn \<Rightarrow> string list \<Rightarrow> string list" where
  \<comment> \<open>The three \<open>except\<close> clauses of the loop of \<open>cmd_rm\<close>.\<close>
  "rm_except force file_name e results =
     (case e of
        FileNotFoundError d \<Rightarrow>
          (if \<not> force then results @ [''File not found: '' @ file_name] else results)
      | PermissionError d \<Rightarrow> results @ [''Permission denied: '' @ file_name]
      | _ \<Rightarrow> results @ [''Error removing '' @ file_name @ '': '' @ str_of e])"

definition rm_path :: "'a os \<Rightarrow> session \<Rightarrow> string \<Rightarrow> string" where
  "rm_path os s file_name =
     (if \<not> isabs os file_name then path_join os (current_directory s) file_name
      else file_name)"

fun rm_loop ::
  "'a os \<Rightarrow> session \<Rightarrow> bool \<Rightarrow> bool \<Rightarrow> string list \<Rightarrow> string list \<Rightarrow> 'a world
     \<Rightarrow> string list \<times> 'a world" where
  \<comment> \<open>\<open>for file_name in files\<close>, with the list \<open>results\<close> and the world as they stand.\<close>
  "rm_loop os s recursive force [] results w = (results, w)"
| "rm_loop os s recursive force (file_name # files) results w =
     (let file_path = rm_path os s file_name in
      if isdir os w file_path then
        (if recursive then
           (case rmtree os w file_path of
              (None, w') \<Rightarrow>
                rm_loop os s recursive force files
                  (results @ [''Removed directory tree: '' @ file_name]) w'
            | (Some e, w') \<Rightarrow>
                rm_loop os s recursive force files (rm_except force file_name e results) w')
         else
           rm_loop os s recursive force files
             (results @ [''Cannot remove directory '' @ file_name @ '': use -r flag'']) w)
      else
        (case os_remove os w file_path of
           (None, w') \<Rightarrow>
             rm_loop os s recursive force files (results @ [''Removed file: '' @ file_name]) w'
         | (Some e, w') \<Rightarrow>
             rm_loop os s recursive force files (rm_except force file_name e results) w'))"

definition cmd_rm :: "'a os \<Rightarrow> 'a world \<Rightarrow> session \<Rightarrow> string list \<Rightarrow> string \<times> 'a world" where
  "cmd_rm os w s args =
     (if args = [] then (''Usage: rm [-r] <file_or_directory>'', w)
      else
        (let recursive = (''-r'' \<in> set args \<or> ''-rf'' \<in> set args \<or> ''--recursive'' \<in> set args);
             force = (''-f'' \<in> set args \<or> ''-rf'' \<in> set args \<or> ''--force'' \<in> set args);
             files = filter (\<lambda>arg. \<not> startswith arg ''-'') args
         in
         if files = [] then (''No files specified'', w)
         else (case rm_loop os s recursive force files [] w of
                 (results, w') \<Rightarrow> (py_join newline results, w'))))"

definition cmd_echo :: "string list \<Rightarrow> string" where
  "cmd_echo args = py_join '' '' args"

fun str_nat :: "nat \<Rightarrow> string" where
  \<comment> \<open>\<open>str(n)\<close>: the decimal digits of \<open>n\<close>.\<close>
  "str_nat n =
     (if n < 10 then [char_of (48 + n)]
      else str_nat (n div 10) @ [char_of (48 + n mod 10)])"

definition rjust :: "nat \<Rightarrow> string \<Rightarrow> string" where
  \<comment> \<open>The format \<open>{i:3d}\<close> pads on the left with spaces, to the width.\<close>
  "rjust width d = replicate (width - length d) CHR '' '' @ d"

definition cmd_history :: "session \<Rightarrow> string list \<Rightarrow> string" where
  "cmd_history s args =
     (if command_history s = [] then ''No command history''
      else
        (let recent = drop (length (command_history s) - 50) (command_history s)
         in py_join newline
              (map (\<lambda>(i, cmd). rjust 3 (str_nat i) @ ''  '' @ cmd)
                 (zip [1 ..< Suc (length recent)] recent))))"

definition cmd_clear :: "string list \<Rightarrow> string" where
  "cmd_clear args = [CHR 0x1B] @ ''[2J'' @ [CHR 0x1B] @ ''[H''"

definition cmd_exit :: "string list \<Rightarrow> string" where
  "cmd_exit args = ''EXIT_TERMINAL''"

definition cmd_help :: "string list \<Rightarrow> string" where
  "cmd_help args = py_join newline
     [ ''Python Terminal - Available Commands:'',
       '''',
       ''File Operations:'',
       ''  ls, dir          - List directory contents'',
       ''  cd               - Change directory'',
       ''  pwd              - Print working directory'',
       ''  mkdir            - Create directory'',
       ''  rmdir            - Remove empty directory'',
       ''  rm, del          - Remove files/directories'',
       ''  touch            - Create empty file'',
       ''  cat, type        - Display file contents'',
       ''  cp, copy         - Copy files/directories'',
       ''  mv, move         - Move/rename files/directories'',
       ''  find             - Find files and directories'',
       ''  grep             - Search text in files'',
       ''  tree             - Display directory tree'',
       '''',
       ''System Monitoring:'',
       ''  ps               - List processes'',
       ''  kill             - Kill process by PID'',
       ''  top              - Display system resource usage'',
       ''  df               - Display filesystem usage'',
       ''  free             - Display memory usage'',
       '''',
       ''Utilities:'',
       ''  echo             - Echo text'',
       ''  whoami           - Display current user'',
       ''  date             - Display current date/time'',
       ''  history          - Show command history'',
       ''  clear, cls       - Clear screen'',
       ''  env              - Show environment variables'',
       ''  alias            - Create command aliases'',
       ''  help             - Show this help'',
       '''',
       ''Navigation:'',
       ''  exit, quit       - Exit terminal'',
       '''',
       ''Use -h or --help with most commands for more options.'' ]"

definition split_eq :: "string \<Rightarrow> string \<times> string" where
  \<comment> \<open>\<open>a.split('=', 1)\<close> of a string that holds \<open>=\<close>: around the first one.\<close>
  "split_eq a = (takeWhile (\<lambda>c. c \<noteq> CHR ''='') a, tl (dropWhile (\<lambda>c. c \<noteq> CHR ''='') a))"

definition cmd_alias :: "session \<Rightarrow> string list \<Rightarrow> string \<times> session" where
  "cmd_alias s args =
     (case args of
        [] \<Rightarrow>
          (if aliases s = [] then (''No aliases defined'', s)
           else (py_join newline
                   (''Defined aliases:'' #
                    map (\<lambda>(alias, command). ''  '' @ alias @ '' = '' @ command) (aliases s)), s))
      | a # _ \<Rightarrow>
          (if CHR ''='' \<in> set a then
             (case split_eq a of
                (alias, command) \<Rightarrow>
                  (''Alias created: '' @ py_strip alias @ '' = '' @ py_strip command,
                   s\<lparr>aliases := AList.update (py_strip alias) (py_strip command) (aliases s)\<rparr>))
           else (''Usage: alias name=command'', s)))"

definition cmd_env :: "session \<Rightarrow> string list \<Rightarrow> string" where
  "cmd_env s args =
     py_join newline (map (\<lambda>(key, val). key @ ''='' @ val) (sort (environment_vars s)))"

definition cmd_set :: "'a os \<Rightarrow> 'a world \<Rightarrow> session \<Rightarrow> string list \<Rightarrow> 'a outcome" where
  \<comment> \<open>\<open>os.environ[var] = value\<close> can raise, after \<open>self.environment_vars\<close> was written.\<close>
  "cmd_set os w s args =
     (case args of
        [] \<Rightarrow> (Inr ''Usage: set VARIABLE=value'', s, w)
      | a # _ \<Rightarrow>
          (if CHR ''='' \<notin> set a then (Inr ''Usage: set VARIABLE=value'', s, w)
           else
             (case split_eq a of
                (var, val) \<Rightarrow>
                  (let s' = s\<lparr>environment_vars := AList.update var val (environment_vars s)\<rparr>
                   in case putenv os w var val of
                        (Some e, w') \<Rightarrow> (Inl e, s', w')
                      | (None, w') \<Rightarrow> (Inr (''Set '' @ var @ ''='' @ val), s', w')))))"

subsection \<open>The directory tree\<close>

text \<open>The connectors are box-drawing characters, here in UTF-8.\<close>

definition last_connector :: string where
  \<comment> \<open>U+2514 U+2500 U+2500 and a space\<close>
  "last_connector =
     [CHR 0xE2, CHR 0x94, CHR 0x94, CHR 0xE2, CHR 0x94, CHR 0x80, CHR 0xE2, CHR 0x94, CHR 0x80,
      CHR 0x20]"

definition tee_connector :: string where
  \<comment> \<open>U+251C U+2500 U+2500 and a space\<close>
  "tee_connector =
     [CHR 0xE2, CHR 0x94, CHR 0x9C, CHR 0xE2, CHR 0x94, CHR 0x80, CHR 0xE2, CHR 0x94, CHR 0x80,
      CHR 0x20]"

definition bar_prefix :: string where
  \<comment> \<open>U+2502 and three spaces\<close>
  "bar_prefix = [CHR 0xE2, CHR 0x94, CHR 0x82, CHR 0x20, CHR 0x20, CHR 0x20]"

fun tree_loop ::
  "'a os \<Rightarrow> 'a world \<Rightarrow> (string \<Rightarrow> string \<Rightarrow> string list \<Rightarrow> exn + string list) \<Rightarrow>
     string \<Rightarrow> string \<Rightarrow> nat \<Rightarrow> (nat \<times> string) list \<Rightarrow> string list \<Rightarrow> exn + string list" where
  \<comment> \<open>\<open>for i, item in enumerate(items)\<close>, with \<open>n = len(items)\<close>; \<open>descend\<close> is the call of
      \<open>_build_tree\<close> one level down. An exception of that call leaves the loop.\<close>
  "tree_loop os w descend path prefix n [] results = Inr results"
| "tree_loop os w descend path prefix n ((i, item) # rest) results =
     (if startswith item ''.'' then tree_loop os w descend path prefix n rest results
      else
        (let item_path = path_join os path item;
             is_last = (int i = int n - 1);
             current_prefix = (if is_last then last_connector else tee_connector);
             results = results @ [prefix @ current_prefix @ item]
         in
         if isdir os w item_path then
           (let next_prefix = prefix @ (if is_last then ''    '' else bar_prefix) in
            case descend item_path next_prefix results of
              Inl e \<Rightarrow> Inl e
            | Inr results \<Rightarrow> tree_loop os w descend path prefix n rest results)
         else tree_loop os w descend path prefix n rest results))"

function build_tree ::
  "'a os \<Rightarrow> 'a world \<Rightarrow> string \<Rightarrow> string \<Rightarrow> string list \<Rightarrow> nat \<Rightarrow> nat \<Rightarrow> exn + string list" where
  \<comment> \<open>\<open>_build_tree\<close>: the list \<open>results\<close> as it stands on return, or the exception that
      leaves the call (any but \<open>PermissionError\<close>, which only \<open>os.listdir\<close> raises).\<close>
  "build_tree os w path prefix results depth max_depth =
     (if depth \<ge> max_depth then Inr results
      else
        (case listdir os w path of
           Inl (PermissionError d) \<Rightarrow>
             Inr (results @ [prefix @ last_connector @ ''[Permission Denied]''])
         | Inl e \<Rightarrow> Inl e
         | Inr entries \<Rightarrow>
             (let items = sort entries in
              tree_loop os w
                (\<lambda>item_path next_prefix results.
                   build_tree os w item_path next_prefix results (depth + 1) max_depth)
                path prefix (length items) (zip [0 ..< length items] items) results)))"
  by pat_completeness auto
termination
  by (relation "measure (\<lambda>(os, w, path, prefix, results, depth, max_depth). max_depth - depth)") auto

definition cmd_tree :: "'a os \<Rightarrow> 'a world \<Rightarrow> session \<Rightarrow> string list \<Rightarrow> string" where
  "cmd_tree os w s args =
     (let path = (case args of [] \<Rightarrow> current_directory s | a # _ \<Rightarrow> a);
          max_depth = 3;
          path = (if \<not> isabs os path then path_join os (current_directory s) path else path)
      in
      if \<not> path_exists os w path then ''Path not found: '' @ path
      else
        (let results = [if basename os path \<noteq> [] then basename os path else path] in
         case build_tree os w path [] results 0 max_depth of
           Inl e \<Rightarrow> ''Error building tree: '' @ str_of e
         | Inr results \<Rightarrow> py_join newline results))"

subsection \<open>The command engine\<close>

definition run_builtin :: "'a os \<Rightarrow> builtin \<Rightarrow> 'a world \<Rightarrow> session \<Rightarrow> string list \<Rightarrow> 'a outcome" where
  \<comment> \<open>\<open>self.builtin_commands[command](args)\<close>\<close>
  "run_builtin os b w s args =
     (case b of
        Cd \<Rightarrow> cmd_cd os w s args
      | Pwd \<Rightarrow> (Inr (cmd_pwd s args), s, w)
      | Ls \<Rightarrow> (Inr (cmd_ls os w s args), s, w)
      | Rm \<Rightarrow> (case cmd_rm os w s args of (out, w') \<Rightarrow> (Inr out, s, w'))
      | Echo \<Rightarrow> (Inr (cmd_echo args), s, w)
      | History \<Rightarrow> (Inr (cmd_history s args), s, w)
      | Clear \<Rightarrow> (Inr (cmd_clear args), s, w)
      | Exit \<Rightarrow> (Inr (cmd_exit args), s, w)
      | Help \<Rightarrow> (Inr (cmd_help args), s, w)
      | Alias \<Rightarrow> (case cmd_alias s args of (out, s') \<Rightarrow> (Inr out, s', w))
      | Env \<Rightarrow> (Inr (cmd_env s args), s, w)
      | SetVar \<Rightarrow> cmd_set os w s args
      | Tree \<Rightarrow> (Inr (cmd_tree os w s args), s, w)
      | _ \<Rightarrow> (case sys_handler os b w (current_directory s) args of (r, w') \<Rightarrow> (r, s, w')))"

definition limit_history :: "string list \<Rightarrow> string list" where
  \<comment> \<open>\<open>if len(h) > 1000: h = h[-1000:]\<close>\<close>
  "limit_history h = (if length h > 1000 then drop (length h - 1000) h else h)"

definition execute_command ::
  "'a os \<Rightarrow> 'a world \<Rightarrow> session \<Rightarrow> string \<Rightarrow> (string \<times> int) \<times> session \<times> 'a world" where
  "execute_command os w s command_line =
     (if py_strip command_line = [] then (([], 0), s, w)
      else
        (let s = s\<lparr>command_history := limit_history (command_history s @ [command_line])\<rparr> in
         case shlex_split os command_line of
           Inl e \<Rightarrow> ((''Command parsing error: '' @ str_of e, 1), s, w)
         | Inr [] \<Rightarrow> (([], 0), s, w)
         | Inr (command # args) \<Rightarrow>
             (let command = (case map_of (aliases s) command of
                               Some v \<Rightarrow> v
                             | None \<Rightarrow> command)
              in case map_of builtin_commands command of
                   Some b \<Rightarrow>
                     (case run_builtin os b w s args of
                        (Inr out, s', w') \<Rightarrow> ((out, 0), s', w')
                      | (Inl e, s', w') \<Rightarrow>
                          ((''Error executing '' @ command @ '': '' @ str_of e, 1), s', w'))
                 | None \<Rightarrow>
                     (case execute_external_command os w s command args of
                        (r, w') \<Rightarrow> (r, s, w')))))"

fun execute_lines ::
  "'a os \<Rightarrow> 'a world \<Rightarrow> session \<Rightarrow> string list \<Rightarrow> session \<times> 'a world" where
  \<comment> \<open>A front end's loop: one \<open>execute_command\<close> per line, on the same terminal.\<close>
  "execute_lines os w s [] = (s, w)"
| "execute_lines os w s (command_line # rest) =
     (case execute_command os w s command_line of
        (r, s', w') \<Rightarrow> execute_lines os w' s' rest)"

subsection \<open>Terminals per session: \<open>web_interface.py\<close>\<close>

definition get_terminal ::
  "'a os \<Rightarrow> 'a world \<Rightarrow> (string \<rightharpoonup> session) \<Rightarrow> string \<Rightarrow> session \<times> (string \<rightharpoonup> session)" where
  "get_terminal os w terminals session_id =
     (case terminals session_id of
        None \<Rightarrow> (let t = init os w in (t, terminals(session_id \<mapsto> t)))
      | Some t \<Rightarrow> (t, terminals))"

definition web_execute ::
  "'a os \<Rightarrow> 'a world \<Rightarrow> (string \<rightharpoonup> session) \<Rightarrow> string \<Rightarrow> string \<Rightarrow>
     (string \<times> int) \<times> (string \<rightharpoonup> session) \<times> 'a world" where
  \<comment> \<open>The route \<open>/execute\<close> for a request that carries a session id, without its JSON and
      its prompt. The terminal is an object of the dictionary: what the command writes
      to it, the dictionary holds.\<close>
  "web_execute os w terminals session_id command =
     (let command = py_strip command in
      if command = [] then (([], 0), terminals, w)
      else
        (case get_terminal os w terminals session_id of
           (terminal, terminals) \<Rightarrow>
             (case execute_command os w terminal command of
                ((out, return_code), terminal', w') \<Rightarrow>
                  if out = ''EXIT_TERMINAL''
                  then ((''Terminal session ended.'', 0), terminals(session_id := None), w')
                  else ((out, return_code), terminals(session_id \<mapsto> terminal'), w'))))"

section \<open>The translator: \<open>ai_interface.py\<close>\<close>

subsection \<open>More of Python's strings\<close>

definition ascii_uppercase :: string where
  "ascii_uppercase = ''ABCDEFGHIJKLMNOPQRSTUVWXYZ''"

definition ascii_lowercase :: string where
  "ascii_lowercase = ''abcdefghijklmnopqrstuvwxyz''"

definition is_upper :: "char \<Rightarrow> bool" where
  "is_upper c = (c \<in> set ascii_uppercase)"

definition lower_chr :: "char \<Rightarrow> char" where
  \<comment> \<open>The lower-case letter of an upper-case letter; any other character is itself.\<close>
  "lower_chr c =
     (case map_of (zip ascii_uppercase ascii_lowercase) c of Some l \<Rightarrow> l | None \<Rightarrow> c)"

definition py_lower :: "string \<Rightarrow> string" where
  \<comment> \<open>\<open>s.lower()\<close>\<close>
  "py_lower s = map lower_chr s"

fun split_ws :: "string \<Rightarrow> string \<Rightarrow> string list" where
  \<comment> \<open>The words of a string, with the word that is being read.\<close>
  "split_ws [] cur = (if cur = [] then [] else [cur])"
| "split_ws (c # cs) cur =
     (if py_isspace c then (if cur = [] then split_ws cs [] else cur # split_ws cs [])
      else split_ws cs (cur @ [c]))"

definition py_split :: "string \<Rightarrow> string list" where
  \<comment> \<open>\<open>s.split()\<close>: the words between runs of white space.\<close>
  "py_split s = split_ws s []"

datatype piece = Text string | Field nat

fun py_format :: "piece list \<Rightarrow> string list \<Rightarrow> exn + string" where
  \<comment> \<open>\<open>template.format(*params)\<close> for a template of text and fields \<open>{i}\<close>.\<close>
  "py_format [] params = Inr []"
| "py_format (Text t # ps) params =
     (case py_format ps params of Inl e \<Rightarrow> Inl e | Inr r \<Rightarrow> Inr (t @ r))"
| "py_format (Field i # ps) params =
     (if i < length params
      then (case py_format ps params of Inl e \<Rightarrow> Inl e | Inr r \<Rightarrow> Inr (params ! i @ r))
      else Inl (IndexError ''Replacement index out of range for positional args tuple''))"

definition truthy :: "string option \<Rightarrow> bool" where
  \<comment> \<open>\<open>if x:\<close> for \<open>x\<close> a string or \<open>None\<close>\<close>
  "truthy x = (case x of None \<Rightarrow> False | Some v \<Rightarrow> v \<noteq> [])"

subsection \<open>Regular expressions\<close>

text \<open>
  The part of Python's \<open>re\<close> that the patterns of \<open>ai_interface.py\<close> use, as a
  sequence of items: a literal text, \<open>c*?\<close> (\<open>Lazy\<close>) and \<open>c+\<close> (\<open>Plus\<close>) for a class \<open>c\<close> of
  characters, \<open>x?\<close> for a character (\<open>Opt\<close>), an alternative of literal texts
  \<open>(?:a|b)\<close>, and the two ends of a capturing group. \<open>Star c\<close> is \<open>c*\<close>, what is left of
  \<open>c+\<close> after its first character. The classes are \<open>.\<close> (any character but the line
  feed), \<open>\s\<close>, \<open>\S\<close>, \<open>\w\<close> and \<open>[^"]\<close>.
\<close>

datatype cclass = AnyChar | Space | NonSpace | WordChar | NotQuote

fun in_class :: "cclass \<Rightarrow> char \<Rightarrow> bool" where
  "in_class AnyChar c = (c \<noteq> CHR 0x0A)"
| "in_class Space c = py_isspace c"
| "in_class NonSpace c = (\<not> py_isspace c)"
| "in_class WordChar c =
     (c \<in> set (''0123456789'' @ ascii_uppercase @ ascii_lowercase @ ''_''))"
| "in_class NotQuote c = (c \<noteq> CHR 0x22)"

datatype rx =
    Lit string | Lazy cclass | Plus cclass | Star cclass | Opt char | Alt "string list"
  | Open | Close

fun rx_weight :: "rx \<Rightarrow> nat" where
  "rx_weight (Alt as) = 2 + length as"
| "rx_weight (Plus c) = 2"
| "rx_weight r = 1"

fun iprefix :: "string \<Rightarrow> string \<Rightarrow> bool" where
  \<comment> \<open>The text begins with the literal, under \<open>re.IGNORECASE\<close>.\<close>
  "iprefix [] s = True"
| "iprefix (c # cs) [] = False"
| "iprefix (c # cs) (x # xs) = (if lower_chr x = lower_chr c then iprefix cs xs else False)"

text \<open>
  The backtracking matcher, at one position: \<open>rx_match items s groups start\<close> matches
  the items against a prefix of \<open>s\<close>, trying the ways to match in the order in which
  \<open>re\<close> tries them (a lazy repetition first without a further character, a greedy one
  first with it, the alternatives from the left), and returns the groups of the first
  way that matches all items. \<open>groups\<close> are the groups closed so far and \<open>start\<close> is the
  text from where the open group began.
\<close>

function (sequential) rx_match ::
  "rx list \<Rightarrow> string \<Rightarrow> string list \<Rightarrow> string \<Rightarrow> string list option" where
  "rx_match [] s groups start = Some groups"
| "rx_match (Lit l # rs) s groups start =
     (if iprefix l s then rx_match rs (drop (length l) s) groups start else None)"
| "rx_match (Lazy c # rs) s groups start =
     (case rx_match rs s groups start of
        Some g \<Rightarrow> Some g
      | None \<Rightarrow>
          (case s of
             [] \<Rightarrow> None
           | x # xs \<Rightarrow> if in_class c x then rx_match (Lazy c # rs) xs groups start else None))"
| "rx_match (Plus c # rs) s groups start =
     (case s of
        [] \<Rightarrow> None
      | x # xs \<Rightarrow> if in_class c x then rx_match (Star c # rs) xs groups start else None)"
| "rx_match (Star c # rs) s groups start =
     (case s of
        [] \<Rightarrow> rx_match rs s groups start
      | x # xs \<Rightarrow>
          if in_class c x then
            (case rx_match (Star c # rs) xs groups start of
               Some g \<Rightarrow> Some g
             | None \<Rightarrow> rx_match rs s groups start)
          else rx_match rs s groups start)"
| "rx_match (Opt ch # rs) s groups start =
     (case s of
        [] \<Rightarrow> rx_match rs s groups start
      | x # xs \<Rightarrow>
          if lower_chr x = lower_chr ch then
            (case rx_match rs xs groups start of
               Some g \<Rightarrow> Some g
             | None \<Rightarrow> rx_match rs s groups start)
          else rx_match rs s groups start)"
| "rx_match (Alt [] # rs) s groups start = None"
| "rx_match (Alt (a # as) # rs) s groups start =
     (case rx_match (Lit a # rs) s groups start of
        Some g \<Rightarrow> Some g
      | None \<Rightarrow> rx_match (Alt as # rs) s groups start)"
| "rx_match (Open # rs) s groups start = rx_match rs s groups s"
| "rx_match (Close # rs) s groups start =
     rx_match rs s (groups @ [take (length start - length s) start]) start"
  by pat_completeness auto
termination
  by (relation "measures [\<lambda>(rs, s, g, st). sum_list (map rx_weight rs),
                          \<lambda>(rs, s, g, st). length s]")
     auto

declare rx_match.simps [simp del]

fun re_search :: "rx list \<Rightarrow> string \<Rightarrow> string list option" where
  \<comment> \<open>\<open>re.search(pattern, s, re.IGNORECASE)\<close>: the first position from the left where the
      pattern matches; \<open>None\<close> for no match, else \<open>match.groups()\<close>.\<close>
  "re_search pattern [] = rx_match pattern [] [] []"
| "re_search pattern (x # xs) =
     (case rx_match pattern (x # xs) [] [] of
        Some g \<Rightarrow> Some g
      | None \<Rightarrow> re_search pattern xs)"

subsection \<open>The pattern table\<close>

text \<open>
  \<open>_initialize_patterns\<close>: the categories in the order of the dictionary, each with its
  list of dictionaries, a dictionary being its patterns and its command template.
\<close>

definition command_patterns :: "(string \<times> (rx list list \<times> piece list) list) list" where
  \<open>command_patterns =
     [ (''create_file'',
        [ ([ \<comment> \<open>\<^verbatim>\<open>create.*?file.*?(?:named|called)\s+(\S+)\<close>\<close>
            [Lit ''create'', Lazy AnyChar, Lit ''file'', Lazy AnyChar,
             Alt [''named'', ''called''], Plus Space, Open, Plus NonSpace, Close],
            \<comment> \<open>\<^verbatim>\<open>make.*?file.*?(\S+)\<close>\<close>
            [Lit ''make'', Lazy AnyChar, Lit ''file'', Lazy AnyChar, Open, Plus NonSpace, Close],
            \<comment> \<open>\<^verbatim>\<open>touch.*?(\S+)\<close>\<close>
            [Lit ''touch'', Lazy AnyChar, Open, Plus NonSpace, Close],
            \<comment> \<open>\<^verbatim>\<open>new file.*?(\S+)\<close>\<close>
            [Lit ''new file'', Lazy AnyChar, Open, Plus NonSpace, Close] ],
          \<comment> \<open>\<^verbatim>\<open>touch {0}\<close>\<close> [Text ''touch '', Field 0]) ]),
       (''create_directory'',
        [ ([ \<comment> \<open>\<^verbatim>\<open>create.*?(?:directory|folder|dir).*?(?:named|called)\s+(\S+)\<close>\<close>
            [Lit ''create'', Lazy AnyChar, Alt [''directory'', ''folder'', ''dir''],
             Lazy AnyChar, Alt [''named'', ''called''], Plus Space, Open, Plus NonSpace, Close],
            \<comment> \<open>\<^verbatim>\<open>make.*?(?:directory|folder|dir).*?(\S+)\<close>\<close>
            [Lit ''make'', Lazy AnyChar, Alt [''directory'', ''folder'', ''dir''],
             Lazy AnyChar, Open, Plus NonSpace, Close],
            \<comment> \<open>\<^verbatim>\<open>mkdir.*?(\S+)\<close>\<close>
            [Lit ''mkdir'', Lazy AnyChar, Open, Plus NonSpace, Close],
            \<comment> \<open>\<^verbatim>\<open>new (?:directory|folder).*?(\S+)\<close>\<close>
            [Lit ''new '', Alt [''directory'', ''folder''], Lazy AnyChar, Open, Plus NonSpace,
             Close] ],
          \<comment> \<open>\<^verbatim>\<open>mkdir {0}\<close>\<close> [Text ''mkdir '', Field 0]) ]),
       (''list_files'',
        [ ([ \<comment> \<open>\<^verbatim>\<open>list.*?files?\<close>\<close>
            [Lit ''list'', Lazy AnyChar, Lit ''file'', Opt CHR ''s''],
            \<comment> \<open>\<^verbatim>\<open>show.*?files?\<close>\<close>
            [Lit ''show'', Lazy AnyChar, Lit ''file'', Opt CHR ''s''],
            \<comment> \<open>\<^verbatim>\<open>what.*?files?.*?here\<close>\<close>
            [Lit ''what'', Lazy AnyChar, Lit ''file'', Opt CHR ''s'', Lazy AnyChar,
             Lit ''here''],
            \<comment> \<open>\<^verbatim>\<open>ls\<close>\<close>
            [Lit ''ls''],
            \<comment> \<open>\<^verbatim>\<open>dir\<close>\<close>
            [Lit ''dir''] ],
          \<comment> \<open>\<^verbatim>\<open>ls\<close>\<close> [Text ''ls'']) ]),
       (''delete_file'',
        [ ([ \<comment> \<open>\<^verbatim>\<open>delete.*?file.*?(\S+)\<close>\<close>
            [Lit ''delete'', Lazy AnyChar, Lit ''file'', Lazy AnyChar, Open, Plus NonSpace,
             Close],
            \<comment> \<open>\<^verbatim>\<open>remove.*?file.*?(\S+)\<close>\<close>
            [Lit ''remove'', Lazy AnyChar, Lit ''file'', Lazy AnyChar, Open, Plus NonSpace,
             Close],
            \<comment> \<open>\<^verbatim>\<open>rm.*?(\S+)\<close>\<close>
            [Lit ''rm'', Lazy AnyChar, Open, Plus NonSpace, Close],
            \<comment> \<open>\<^verbatim>\<open>del.*?(\S+)\<close>\<close>
            [Lit ''del'', Lazy AnyChar, Open, Plus NonSpace, Close] ],
          \<comment> \<open>\<^verbatim>\<open>rm {0}\<close>\<close> [Text ''rm '', Field 0]) ]),
       (''copy_file'',
        [ ([ \<comment> \<open>\<^verbatim>\<open>copy.*?(\S+).*?to.*?(\S+)\<close>\<close>
            [Lit ''copy'', Lazy AnyChar, Open, Plus NonSpace, Close, Lazy AnyChar, Lit ''to'',
             Lazy AnyChar, Open, Plus NonSpace, Close],
            \<comment> \<open>\<^verbatim>\<open>cp.*?(\S+).*?(\S+)\<close>\<close>
            [Lit ''cp'', Lazy AnyChar, Open, Plus NonSpace, Close, Lazy AnyChar, Open,
             Plus NonSpace, Close],
            \<comment> \<open>\<^verbatim>\<open>duplicate.*?(\S+).*?as.*?(\S+)\<close>\<close>
            [Lit ''duplicate'', Lazy AnyChar, Open, Plus NonSpace, Close, Lazy AnyChar,
             Lit ''as'', Lazy AnyChar, Open, Plus NonSpace, Close] ],
          \<comment> \<open>\<^verbatim>\<open>cp {0} {1}\<close>\<close> [Text ''cp '', Field 0, Text '' '', Field 1]) ]),
       (''move_file'',
        [ ([ \<comment> \<open>\<^verbatim>\<open>move.*?(\S+).*?to.*?(\S+)\<close>\<close>
            [Lit ''move'', Lazy AnyChar, Open, Plus NonSpace, Close, Lazy AnyChar, Lit ''to'',
             Lazy AnyChar, Open, Plus NonSpace, Close],
            \<comment> \<open>\<^verbatim>\<open>mv.*?(\S+).*?(\S+)\<close>\<close>
            [Lit ''mv'', Lazy AnyChar, Open, Plus NonSpace, Close, Lazy AnyChar, Open,
             Plus NonSpace, Close],
            \<comment> \<open>\<^verbatim>\<open>relocate.*?(\S+).*?to.*?(\S+)\<close>\<close>
            [Lit ''relocate'', Lazy AnyChar, Open, Plus NonSpace, Close, Lazy AnyChar,
             Lit ''to'', Lazy AnyChar, Open, Plus NonSpace, Close] ],
          \<comment> \<open>\<^verbatim>\<open>mv {0} {1}\<close>\<close> [Text ''mv '', Field 0, Text '' '', Field 1]) ]),
       (''change_directory'',
        [ ([ \<comment> \<open>\<^verbatim>\<open>go.*?to.*?(?:directory|folder).*?(\S+)\<close>\<close>
            [Lit ''go'', Lazy AnyChar, Lit ''to'', Lazy AnyChar,
             Alt [''directory'', ''folder''], Lazy AnyChar, Open, Plus NonSpace, Close],
            \<comment> \<open>\<^verbatim>\<open>change.*?(?:directory|folder).*?to.*?(\S+)\<close>\<close>
            [Lit ''change'', Lazy AnyChar, Alt [''directory'', ''folder''], Lazy AnyChar,
             Lit ''to'', Lazy AnyChar, Open, Plus NonSpace, Close],
            \<comment> \<open>\<^verbatim>\<open>cd.*?(\S+)\<close>\<close>
            [Lit ''cd'', Lazy AnyChar, Open, Plus NonSpace, Close],
            \<comment> \<open>\<^verbatim>\<open>navigate.*?to.*?(\S+)\<close>\<close>
            [Lit ''navigate'', Lazy AnyChar, Lit ''to'', Lazy AnyChar, Open, Plus NonSpace,
             Close] ],
          \<comment> \<open>\<^verbatim>\<open>cd {0}\<close>\<close> [Text ''cd '', Field 0]) ]),
       (''show_content'',
        [ ([ \<comment> \<open>\<^verbatim>\<open>show.*?content.*?(?:of|in).*?(\S+)\<close>\<close>
            [Lit ''show'', Lazy AnyChar, Lit ''content'', Lazy AnyChar, Alt [''of'', ''in''],
             Lazy AnyChar, Open, Plus NonSpace, Close],
            \<comment> \<open>\<^verbatim>\<open>display.*?(\S+)\<close>\<close>
            [Lit ''display'', Lazy AnyChar, Open, Plus NonSpace, Close],
            \<comment> \<open>\<^verbatim>\<open>cat.*?(\S+)\<close>\<close>
            [Lit ''cat'', Lazy AnyChar, Open, Plus NonSpace, Close],
            \<comment> \<open>\<^verbatim>\<open>read.*?(\S+)\<close>\<close>
            [Lit ''read'', Lazy AnyChar, Open, Plus NonSpace, Close],
            \<comment> \<open>\<^verbatim>\<open>view.*?(\S+)\<close>\<close>
            [Lit ''view'', Lazy AnyChar, Open, Plus NonSpace, Close] ],
          \<comment> \<open>\<^verbatim>\<open>cat {0}\<close>\<close> [Text ''cat '', Field 0]) ]),
       (''find_files'',
        [ ([ \<comment> \<open>\<^verbatim>\<open>find.*?files?.*?(?:named|called).*?(\S+)\<close>\<close>
            [Lit ''find'', Lazy AnyChar, Lit ''file'', Opt CHR ''s'', Lazy AnyChar,
             Alt [''named'', ''called''], Lazy AnyChar, Open, Plus NonSpace, Close],
            \<comment> \<open>\<^verbatim>\<open>search.*?for.*?(\S+)\<close>\<close>
            [Lit ''search'', Lazy AnyChar, Lit ''for'', Lazy AnyChar, Open, Plus NonSpace,
             Close],
            \<comment> \<open>\<^verbatim>\<open>locate.*?(\S+)\<close>\<close>
            [Lit ''locate'', Lazy AnyChar, Open, Plus NonSpace, Close] ],
          \<comment> \<open>\<^verbatim>\<open>find . -name "{0}"\<close>\<close> [Text (''find . -name '' @ [CHR 0x22]), Field 0, Text [CHR 0x22]]) ]),
       (''system_info'',
        [ ([ \<comment> \<open>\<^verbatim>\<open>show.*?system.*?info\<close>\<close>
            [Lit ''show'', Lazy AnyChar, Lit ''system'', Lazy AnyChar, Lit ''info''],
            \<comment> \<open>\<^verbatim>\<open>system.*?status\<close>\<close>
            [Lit ''system'', Lazy AnyChar, Lit ''status''],
            \<comment> \<open>\<^verbatim>\<open>resource.*?usage\<close>\<close>
            [Lit ''resource'', Lazy AnyChar, Lit ''usage''],
            \<comment> \<open>\<^verbatim>\<open>top\<close>\<close>
            [Lit ''top''] ],
          \<comment> \<open>\<^verbatim>\<open>top\<close>\<close> [Text ''top'']) ]),
       (''list_processes'',
        [ ([ \<comment> \<open>\<^verbatim>\<open>list.*?processes?\<close>\<close>
            [Lit ''list'', Lazy AnyChar, Lit ''processe'', Opt CHR ''s''],
            \<comment> \<open>\<^verbatim>\<open>show.*?processes?\<close>\<close>
            [Lit ''show'', Lazy AnyChar, Lit ''processe'', Opt CHR ''s''],
            \<comment> \<open>\<^verbatim>\<open>running.*?programs?\<close>\<close>
            [Lit ''running'', Lazy AnyChar, Lit ''program'', Opt CHR ''s''],
            \<comment> \<open>\<^verbatim>\<open>ps\<close>\<close>
            [Lit ''ps''] ],
          \<comment> \<open>\<^verbatim>\<open>ps\<close>\<close> [Text ''ps'']) ]),
       (''current_directory'',
        [ ([ \<comment> \<open>\<^verbatim>\<open>where.*?am.*?i\<close>\<close>
            [Lit ''where'', Lazy AnyChar, Lit ''am'', Lazy AnyChar, Lit ''i''],
            \<comment> \<open>\<^verbatim>\<open>current.*?(?:directory|folder|location)\<close>\<close>
            [Lit ''current'', Lazy AnyChar, Alt [''directory'', ''folder'', ''location'']],
            \<comment> \<open>\<^verbatim>\<open>pwd\<close>\<close>
            [Lit ''pwd''],
            \<comment> \<open>\<^verbatim>\<open>show.*?(?:directory|folder)\<close>\<close>
            [Lit ''show'', Lazy AnyChar, Alt [''directory'', ''folder'']] ],
          \<comment> \<open>\<^verbatim>\<open>pwd\<close>\<close> [Text ''pwd'']) ]),
       (''disk_usage'',
        [ ([ \<comment> \<open>\<^verbatim>\<open>disk.*?usage\<close>\<close>
            [Lit ''disk'', Lazy AnyChar, Lit ''usage''],
            \<comment> \<open>\<^verbatim>\<open>disk.*?space\<close>\<close>
            [Lit ''disk'', Lazy AnyChar, Lit ''space''],
            \<comment> \<open>\<^verbatim>\<open>storage.*?info\<close>\<close>
            [Lit ''storage'', Lazy AnyChar, Lit ''info''],
            \<comment> \<open>\<^verbatim>\<open>df\<close>\<close>
            [Lit ''df''] ],
          \<comment> \<open>\<^verbatim>\<open>df\<close>\<close> [Text ''df'']) ]),
       (''memory_usage'',
        [ ([ \<comment> \<open>\<^verbatim>\<open>memory.*?usage\<close>\<close>
            [Lit ''memory'', Lazy AnyChar, Lit ''usage''],
            \<comment> \<open>\<^verbatim>\<open>ram.*?usage\<close>\<close>
            [Lit ''ram'', Lazy AnyChar, Lit ''usage''],
            \<comment> \<open>\<^verbatim>\<open>memory.*?info\<close>\<close>
            [Lit ''memory'', Lazy AnyChar, Lit ''info''],
            \<comment> \<open>\<^verbatim>\<open>free.*?memory\<close>\<close>
            [Lit ''free'', Lazy AnyChar, Lit ''memory''],
            \<comment> \<open>\<^verbatim>\<open>free\<close>\<close>
            [Lit ''free''] ],
          \<comment> \<open>\<^verbatim>\<open>free\<close>\<close> [Text ''free'']) ]),
       (''clear_screen'',
        [ ([ \<comment> \<open>\<^verbatim>\<open>clear.*?screen\<close>\<close>
            [Lit ''clear'', Lazy AnyChar, Lit ''screen''],
            \<comment> \<open>\<^verbatim>\<open>clear.*?terminal\<close>\<close>
            [Lit ''clear'', Lazy AnyChar, Lit ''terminal''],
            \<comment> \<open>\<^verbatim>\<open>cls\<close>\<close>
            [Lit ''cls''],
            \<comment> \<open>\<^verbatim>\<open>clear\<close>\<close>
            [Lit ''clear''] ],
          \<comment> \<open>\<^verbatim>\<open>clear\<close>\<close> [Text ''clear'']) ]),
       (''help'',
        [ ([ \<comment> \<open>\<^verbatim>\<open>help\<close>\<close>
            [Lit ''help''],
            \<comment> \<open>\<^verbatim>\<open>what.*?can.*?do\<close>\<close>
            [Lit ''what'', Lazy AnyChar, Lit ''can'', Lazy AnyChar, Lit ''do''],
            \<comment> \<open>\<^verbatim>\<open>available.*?commands?\<close>\<close>
            [Lit ''available'', Lazy AnyChar, Lit ''command'', Opt CHR ''s''],
            \<comment> \<open>\<^verbatim>\<open>show.*?commands?\<close>\<close>
            [Lit ''show'', Lazy AnyChar, Lit ''command'', Opt CHR ''s''] ],
          \<comment> \<open>\<^verbatim>\<open>help\<close>\<close> [Text ''help'']) ]),
       (''echo'',
        [ ([ \<comment> \<open>\<^verbatim>\<open>say.*?"([^"]+)"\<close>\<close>
            [Lit ''say'', Lazy AnyChar, Lit [CHR 0x22], Open, Plus NotQuote, Close,
             Lit [CHR 0x22]],
            \<comment> \<open>\<^verbatim>\<open>echo.*?"([^"]+)"\<close>\<close>
            [Lit ''echo'', Lazy AnyChar, Lit [CHR 0x22], Open, Plus NotQuote, Close,
             Lit [CHR 0x22]],
            \<comment> \<open>\<^verbatim>\<open>print.*?"([^"]+)"\<close>\<close>
            [Lit ''print'', Lazy AnyChar, Lit [CHR 0x22], Open, Plus NotQuote, Close,
             Lit [CHR 0x22]],
            \<comment> \<open>\<^verbatim>\<open>display.*?"([^"]+)"\<close>\<close>
            [Lit ''display'', Lazy AnyChar, Lit [CHR 0x22], Open, Plus NotQuote, Close,
             Lit [CHR 0x22]] ],
          \<comment> \<open>\<^verbatim>\<open>echo "{0}"\<close>\<close> [Text (''echo '' @ [CHR 0x22]), Field 0, Text [CHR 0x22]]) ]) ]\<close>

subsection \<open>The multi-step commands\<close>

definition create_and_move_re :: "rx list" where
  \<comment> \<open>\<^verbatim>\<open>create.*?(?:folder|directory).*?(?:called|named)\s+(\S+).*?and.*?move.*?(\S+).*?(?:into|to).*?it\<close>\<close>
  "create_and_move_re =
     [Lit ''create'', Lazy AnyChar, Alt [''folder'', ''directory''], Lazy AnyChar,
      Alt [''called'', ''named''], Plus Space, Open, Plus NonSpace, Close, Lazy AnyChar,
      Lit ''and'', Lazy AnyChar, Lit ''move'', Lazy AnyChar, Open, Plus NonSpace, Close,
      Lazy AnyChar, Alt [''into'', ''to''], Lazy AnyChar, Lit ''it'']"

definition copy_by_extension_re :: "rx list" where
  \<comment> \<open>\<^verbatim>\<open>copy.*?all.*?(\.\w+).*?files?.*?to.*?(\S+)\<close>\<close>
  "copy_by_extension_re =
     [Lit ''copy'', Lazy AnyChar, Lit ''all'', Lazy AnyChar, Open, Lit ''.'', Plus WordChar,
      Close, Lazy AnyChar, Lit ''file'', Opt CHR ''s'', Lazy AnyChar, Lit ''to'', Lazy AnyChar,
      Open, Plus NonSpace, Close]"

definition delete_all_in_dir_re :: "rx list" where
  \<comment> \<open>\<^verbatim>\<open>delete.*?all.*?files?.*?in.*?(\S+)\<close>\<close>
  "delete_all_in_dir_re =
     [Lit ''delete'', Lazy AnyChar, Lit ''all'', Lazy AnyChar, Lit ''file'', Opt CHR ''s'',
      Lazy AnyChar, Lit ''in'', Lazy AnyChar, Open, Plus NonSpace, Close]"

definition find_and_delete_re :: "rx list" where
  \<comment> \<open>\<^verbatim>\<open>find.*?and.*?delete.*?files?.*?(?:called|named).*?(\S+)\<close>\<close>
  "find_and_delete_re =
     [Lit ''find'', Lazy AnyChar, Lit ''and'', Lazy AnyChar, Lit ''delete'', Lazy AnyChar,
      Lit ''file'', Opt CHR ''s'', Lazy AnyChar, Alt [''called'', ''named''], Lazy AnyChar,
      Open, Plus NonSpace, Close]"

definition handle_complex_commands :: "string \<Rightarrow> exn + string option" where
  \<comment> \<open>\<open>_handle_complex_commands\<close>: \<open>Inr None\<close> is the return of \<open>None\<close>; \<open>Inl\<close> is a tuple of
      groups that cannot be unpacked or indexed.\<close>
  "handle_complex_commands nl_input =
     (case re_search create_and_move_re nl_input of
        Some groups \<Rightarrow>
          (case groups of
             [folder_name, file_name] \<Rightarrow>
               Inr (Some (''mkdir '' @ folder_name @ '' && mv '' @ file_name @ '' '' @
                          folder_name @ ''/''))
           | _ \<Rightarrow> Inl (ValueError ''wrong number of values to unpack''))
      | None \<Rightarrow>
     (case re_search copy_by_extension_re nl_input of
        Some groups \<Rightarrow>
          (case groups of
             [extension, destination] \<Rightarrow>
               Inr (Some (''cp *'' @ extension @ '' '' @ destination @ ''/''))
           | _ \<Rightarrow> Inl (ValueError ''wrong number of values to unpack''))
      | None \<Rightarrow>
     (case re_search delete_all_in_dir_re nl_input of
        Some groups \<Rightarrow>
          (case groups of
             directory # _ \<Rightarrow> Inr (Some (''rm '' @ directory @ ''/*''))
           | [] \<Rightarrow> Inl (IndexError ''tuple index out of range''))
      | None \<Rightarrow>
     (case re_search find_and_delete_re nl_input of
        Some groups \<Rightarrow>
          (case groups of
             filename # _ \<Rightarrow>
               Inr (Some (''find . -name '' @ [CHR 0x22] @ filename @ [CHR 0x22] @ '' -delete''))
           | [] \<Rightarrow> Inl (IndexError ''tuple index out of range''))
      | None \<Rightarrow> Inr None))))"

subsection \<open>The keyword fallback\<close>

fun next_after :: "string list \<Rightarrow> string list \<Rightarrow> string option" where
  \<comment> \<open>\<open>for i, word in enumerate(keywords): if word in ws and i + 1 < len(keywords):
      return keywords[i + 1]\<close>\<close>
  "next_after ws [] = None"
| "next_after ws [word] = None"
| "next_after ws (word # following # rest) =
     (if word \<in> set ws then Some following else next_after ws (following # rest))"

definition any_in :: "string list \<Rightarrow> string list \<Rightarrow> bool" where
  \<comment> \<open>\<open>any(word in keywords for word in ws)\<close>\<close>
  "any_in keywords ws = (\<exists>word \<in> set ws. word \<in> set keywords)"

definition interpret_by_keywords :: "string \<Rightarrow> string option" where
  \<comment> \<open>\<open>_interpret_by_keywords\<close>: \<open>None\<close> is the return of \<open>None\<close>.\<close>
  "interpret_by_keywords nl_input =
     (let keywords = py_split nl_input in
      if any_in keywords [''create'', ''make'', ''new''] \<and> any_in keywords [''file''] then
        (case next_after [''file''] keywords of
           Some name \<Rightarrow> Some (''touch '' @ name)
         | None \<Rightarrow> Some ''touch newfile.txt'')
      else if any_in keywords [''create'', ''make'', ''new''] \<and>
              any_in keywords [''folder'', ''directory'', ''dir''] then
        (case next_after [''folder'', ''directory'', ''dir''] keywords of
           Some name \<Rightarrow> Some (''mkdir '' @ name)
         | None \<Rightarrow> Some ''mkdir newfolder'')
      else
        (case (if any_in keywords [''go'', ''navigate'', ''change''] \<and>
                  any_in keywords [''directory'', ''folder'', ''to'']
               then next_after [''to''] keywords else None) of
           Some name \<Rightarrow> Some (''cd '' @ name)
         | None \<Rightarrow>
             if any_in keywords [''list'', ''show''] \<and> any_in keywords [''files'', ''contents'']
             then Some ''ls''
             else if any_in keywords [''delete'', ''remove'', ''rm''] then
               (case find (\<lambda>word. word \<notin> set [''delete'', ''remove'', ''rm'', ''file'', ''the''])
                       keywords of
                  Some word \<Rightarrow> Some (''rm '' @ word)
                | None \<Rightarrow> None)
             else None))"

subsection \<open>\<open>interpret_command\<close>\<close>

definition interpreted_as :: "string \<Rightarrow> string \<Rightarrow> string" where
  \<comment> \<open>The explanation of a match of the pattern table.\<close>
  "interpreted_as natural_language command =
     ''AI interpreted '' @ [CHR 0x27] @ natural_language @ [CHR 0x27] @ '' as '' @
     [CHR 0x27] @ command @ [CHR 0x27]"

fun match_patterns ::
  "string \<Rightarrow> string \<Rightarrow> piece list \<Rightarrow> rx list list \<Rightarrow> (exn + string \<times> string) option" where
  \<comment> \<open>\<open>for pattern in pattern_dict['patterns']\<close>: \<open>Some\<close> is what the loop returns (or
      raises) from \<open>interpret_command\<close>, \<open>None\<close> is the end of the loop.\<close>
  "match_patterns natural_language nl_input command [] = None"
| "match_patterns natural_language nl_input command (pattern # patterns) =
     (case re_search pattern nl_input of
        Some params \<Rightarrow>
          Some (case py_format command params of
                  Inl e \<Rightarrow> Inl e
                | Inr command \<Rightarrow> Inr (command, interpreted_as natural_language command))
      | None \<Rightarrow> match_patterns natural_language nl_input command patterns)"

fun match_dicts ::
  "string \<Rightarrow> string \<Rightarrow> (rx list list \<times> piece list) list \<Rightarrow> (exn + string \<times> string) option" where
  \<comment> \<open>\<open>for pattern_dict in patterns_list\<close>\<close>
  "match_dicts natural_language nl_input [] = None"
| "match_dicts natural_language nl_input ((patterns, command) # pattern_dicts) =
     (case match_patterns natural_language nl_input command patterns of
        Some r \<Rightarrow> Some r
      | None \<Rightarrow> match_dicts natural_language nl_input pattern_dicts)"

fun match_categories ::
  "string \<Rightarrow> string \<Rightarrow> (string \<times> (rx list list \<times> piece list) list) list \<Rightarrow>
     (exn + string \<times> string) option" where
  \<comment> \<open>\<open>for category, patterns_list in self.command_patterns.items()\<close>\<close>
  "match_categories natural_language nl_input [] = None"
| "match_categories natural_language nl_input ((category, patterns_list) # categories) =
     (case match_dicts natural_language nl_input patterns_list of
        Some r \<Rightarrow> Some r
      | None \<Rightarrow> match_categories natural_language nl_input categories)"

definition no_interpretation :: string where
  "no_interpretation = ''No AI interpretation found, executing as-is''"

definition interpret_command :: "string \<Rightarrow> exn + string \<times> string" where
  "interpret_command natural_language =
     (let nl_input = py_lower (py_strip natural_language) in
      case handle_complex_commands nl_input of
        Inl e \<Rightarrow> Inl e
      | Inr complex_command \<Rightarrow>
          if truthy complex_command
          then Inr (the complex_command, ''AI interpreted multi-step command'')
          else
            (case match_categories natural_language nl_input command_patterns of
               Some r \<Rightarrow> r
             | None \<Rightarrow>
                 (let keyword_command = interpret_by_keywords nl_input in
                  if truthy keyword_command
                  then Inr (the keyword_command, ''AI interpreted using keywords'')
                  else Inr (natural_language, no_interpretation))))"

text \<open>
  The pattern table as the three loops go through it: every pattern with the template
  of its dictionary, in the order of the declaration.
\<close>

definition flat_patterns :: "(rx list \<times> piece list) list" where
  "flat_patterns =
     concat (map (\<lambda>(category, patterns_list).
               concat (map (\<lambda>(patterns, command). map (\<lambda>pattern. (pattern, command)) patterns)
                         patterns_list))
            command_patterns)"

definition n_groups :: "rx list \<Rightarrow> nat" where
  \<comment> \<open>The number of capturing groups of a pattern.\<close>
  "n_groups rs = length (filter (\<lambda>r. r = Close) rs)"

subsection \<open>Notions for the properties of the translator\<close>

definition substring :: "string \<Rightarrow> string \<Rightarrow> bool" where
  \<comment> \<open>\<open>x in s\<close>: a stretch of \<open>s\<close> without gaps.\<close>
  "substring x s = (\<exists>before after. s = before @ x @ after)"

definition ends_with :: "string \<Rightarrow> string \<Rightarrow> bool" where
  \<comment> \<open>\<open>s.endswith(t)\<close>\<close>
  "ends_with s t = (\<exists>before. s = before @ t)"

definition lowercase :: "string \<Rightarrow> bool" where
  \<comment> \<open>No character of the string is an upper-case letter.\<close>
  "lowercase s = list_all (\<lambda>c. \<not> is_upper c) s"

fun fields_below :: "nat \<Rightarrow> piece list \<Rightarrow> bool" where
  \<comment> \<open>Every field of the template has an index below \<open>n\<close>.\<close>
  "fields_below n [] = True"
| "fields_below n (Text t # ps) = fields_below n ps"
| "fields_below n (Field i # ps) = (i < n \<and> fields_below n ps)"

fun texts_lowercase :: "piece list \<Rightarrow> bool" where
  "texts_lowercase [] = True"
| "texts_lowercase (Text t # ps) = (lowercase t \<and> texts_lowercase ps)"
| "texts_lowercase (Field i # ps) = texts_lowercase ps"

definition table_result :: "string \<Rightarrow> string \<Rightarrow> rx list \<times> piece list \<Rightarrow> exn + string \<times> string" where
  \<comment> \<open>What \<open>interpret_command\<close> returns at a pattern of the table that matches.\<close>
  "table_result natural_language nl_input rule =
     (case py_format (snd rule) (the (re_search (fst rule) nl_input)) of
        Inl e \<Rightarrow> Inl e
      | Inr command \<Rightarrow> Inr (command, interpreted_as natural_language command))"

definition re_matches :: "rx list \<Rightarrow> string \<Rightarrow> bool" where
  \<comment> \<open>\<open>if re.search(pattern, s, re.IGNORECASE):\<close>\<close>
  "re_matches pattern s = (re_search pattern s \<noteq> None)"

definition multi_step_patterns :: "rx list list" where
  \<comment> \<open>The patterns of \<open>_handle_complex_commands\<close>, in the order in which it tries them.\<close>
  "multi_step_patterns =
     [create_and_move_re, copy_by_extension_re, delete_all_in_dir_re, find_and_delete_re]"

definition matches_multi_step :: "string \<Rightarrow> bool" where
  "matches_multi_step nl_input = (\<exists>pattern \<in> set multi_step_patterns. re_matches pattern nl_input)"

definition matches_table :: "string \<Rightarrow> bool" where
  "matches_table nl_input = (\<exists>rule \<in> set flat_patterns. re_matches (fst rule) nl_input)"

definition multi_step :: string where
  "multi_step = ''AI interpreted multi-step command''"

definition using_keywords :: string where
  "using_keywords = ''AI interpreted using keywords''"

section \<open>Assumptions on the file system\<close>

text \<open>
  What \<open>cmd_rm\<close> expects of \<open>os.remove\<close>, at the paths where it calls it (those for
  which \<open>os.path.isdir\<close> has just answered \<open>False\<close>): whether the call removes the file
  or raises, what was a directory before is a directory after. Nothing is asked of
  \<open>os.remove\<close> at a path that is a directory or a link to one.
\<close>

definition remove_keeps_directories :: "'a os \<Rightarrow> bool" where
  "remove_keeps_directories os =
     (\<forall>w p q. \<not> isdir os w p \<longrightarrow> isdir os w q \<longrightarrow> isdir os (snd (os_remove os w p)) q)"

section \<open>A small machine to run the model on\<close>

text \<open>
  A machine of two lists, the directories and the files, by absolute path. Its calls
  are cut down to what the examples need: \<open>demo_split\<close> separates tokens at white space
  and groups with single quotes; a relative path is read from the working directory of
  the process; a path is looked up as it is written (the machine has no links, and the
  examples reach no file through \<open>.\<close> or \<open>..\<close>), so a path through a name that is missing
  is neither a directory nor a file; \<open>/root\<close> cannot be listed; the executables are
  \<open>true\<close>, \<open>cc\<close> and \<open>sleep\<close>.
\<close>

type_synonym demo_machine = "string list \<times> string list"

fun demo_lex :: "string \<Rightarrow> string \<Rightarrow> bool \<Rightarrow> bool \<Rightarrow> string list \<Rightarrow> exn + string list" where
  "demo_lex [] cur started quoted acc =
     (if quoted then Inl (ValueError ''No closing quotation'')
      else Inr (acc @ (if started then [cur] else [])))"
| "demo_lex (c # cs) cur started quoted acc =
     (if quoted then
        (if c = CHR 0x27 then demo_lex cs cur True False acc
         else demo_lex cs (cur @ [c]) True True acc)
      else if c = CHR 0x27 then demo_lex cs cur True True acc
      else if py_isspace c then demo_lex cs [] False False (acc @ (if started then [cur] else []))
      else demo_lex cs (cur @ [c]) True False acc)"

definition demo_split :: "string \<Rightarrow> exn + string list" where
  "demo_split command_line = demo_lex command_line [] False False []"

definition demo_resolve :: "demo_machine world \<Rightarrow> string \<Rightarrow> string" where
  "demo_resolve w p = (if startswith p ''/'' then p else process_cwd w @ ''/'' @ p)"

fun demo_comps :: "string \<Rightarrow> string \<Rightarrow> string list" where
  \<comment> \<open>\<open>path.split('/')\<close>, with the component that is being read.\<close>
  "demo_comps [] cur = [cur]"
| "demo_comps (c # cs) cur =
     (if c = CHR ''/'' then cur # demo_comps cs [] else demo_comps cs (cur @ [c]))"

fun demo_norm_loop :: "bool \<Rightarrow> string list \<Rightarrow> string list \<Rightarrow> string list" where
  \<comment> \<open>The loop of \<open>posixpath.normpath\<close> over the components: \<open>.\<close> and empty components
      are dropped, \<open>..\<close> takes the component before it away.\<close>
  "demo_norm_loop rooted [] new_comps = new_comps"
| "demo_norm_loop rooted (part # comps) new_comps =
     (if part = [] \<or> part = ''.'' then demo_norm_loop rooted comps new_comps
      else if part \<noteq> ''..'' \<or> (\<not> rooted \<and> new_comps = []) \<or>
              (new_comps \<noteq> [] \<and> last new_comps = ''..'')
      then demo_norm_loop rooted comps (new_comps @ [part])
      else demo_norm_loop rooted comps (butlast new_comps))"

definition demo_normpath :: "string \<Rightarrow> string" where
  \<comment> \<open>\<open>posixpath.normpath\<close>: it works on the text of the path and asks the file system
      nothing.\<close>
  "demo_normpath path =
     (if path = [] then ''.''
      else
        (let initial_slashes =
               (if startswith path ''//'' \<and> \<not> startswith path ''///'' then 2
                else if startswith path ''/'' then 1 else (0::nat));
             comps = demo_norm_loop (0 < initial_slashes) (demo_comps path []) [];
             path' = replicate initial_slashes CHR ''/'' @ py_join ''/'' comps
         in if path' = [] then ''.'' else path'))"

definition demo_abspath :: "demo_machine world \<Rightarrow> string \<Rightarrow> exn + string" where
  \<comment> \<open>\<open>posixpath.abspath\<close>: a relative path is joined to \<open>os.getcwd()\<close>, which raises when
      the working directory of the process is no directory any more; then \<open>normpath\<close>.\<close>
  "demo_abspath w path =
     (if startswith path ''/'' then Inr (demo_normpath path)
      else if process_cwd w \<notin> set (fst (machine w))
      then Inl (FileNotFoundError ''[Errno 2] No such file or directory'')
      else Inr (demo_normpath (demo_resolve w path)))"

definition demo_expanduser :: "demo_machine world \<Rightarrow> string \<Rightarrow> exn + string" where
  \<comment> \<open>\<open>posixpath.expanduser\<close> where \<open>HOME\<close> is \<open>/home/user\<close> and the password database has
      no entry for any name that is asked for: \<open>~\<close> and \<open>~/x\<close> become \<open>/home/user\<close> and
      \<open>/home/user/x\<close>, \<open>~name\<close> stays, and a name with a null character makes
      \<open>pwd.getpwnam\<close> raise.\<close>
  "demo_expanduser w path =
     (if \<not> startswith path ''~'' then Inr path
      else
        (let name = takeWhile (\<lambda>c. c \<noteq> CHR ''/'') (drop 1 path);
             rest = dropWhile (\<lambda>c. c \<noteq> CHR ''/'') (drop 1 path)
         in if name = [] then Inr (''/home/user'' @ rest)
            else if CHR 0x00 \<in> set name then Inl (ValueError ''embedded null byte'')
            else Inr path))"

definition demo_isdir :: "demo_machine world \<Rightarrow> string \<Rightarrow> bool" where
  "demo_isdir w p = (demo_resolve w p \<in> set (fst (machine w)))"

definition demo_isfile :: "demo_machine world \<Rightarrow> string \<Rightarrow> bool" where
  "demo_isfile w p = (demo_resolve w p \<in> set (snd (machine w)))"

definition demo_basename :: "string \<Rightarrow> string" where
  "demo_basename p = rev (takeWhile (\<lambda>c. c \<noteq> CHR ''/'') (rev p))"

definition demo_listdir :: "demo_machine world \<Rightarrow> string \<Rightarrow> exn + string list" where
  "demo_listdir w p =
     (let d = demo_resolve w p in
      if d = ''/root'' then Inl (PermissionError (''[Errno 13] Permission denied: '' @ p))
      else if \<not> demo_isdir w p then Inl (OSError (''[Errno 20] Not a directory: '' @ p))
      else Inr (map demo_basename
                  (filter (\<lambda>q. q = d @ ''/'' @ demo_basename q \<and> demo_basename q \<noteq> [])
                     (fst (machine w) @ snd (machine w)))))"

definition demo_remove :: "demo_machine world \<Rightarrow> string \<Rightarrow> exn option \<times> demo_machine world" where
  "demo_remove w p =
     (if demo_isfile w p
      then (None, w\<lparr>machine := (fst (machine w), removeAll (demo_resolve w p) (snd (machine w)))\<rparr>)
      else (Some (FileNotFoundError (''[Errno 2] No such file or directory: '' @ p)), w))"

definition demo_rmtree :: "demo_machine world \<Rightarrow> string \<Rightarrow> exn option \<times> demo_machine world" where
  "demo_rmtree w p =
     (let d = demo_resolve w p;
          inside = (\<lambda>q. q = d \<or> take (length d + 1) q = d @ ''/'')
      in (None, w\<lparr>machine := (filter (\<lambda>q. \<not> inside q) (fst (machine w)),
                               filter (\<lambda>q. \<not> inside q) (snd (machine w)))\<rparr>))"

definition demo_run ::
  "demo_machine world \<Rightarrow> string list \<Rightarrow> string \<Rightarrow> (exn + completed) \<times> demo_machine world" where
  "demo_run w argv cwd =
     (if hd argv = ''true'' then (Inr (CompletedProcess [] [] 0), w)
      else if hd argv = ''cc'' then (Inr (CompletedProcess ''a.out'' ''warning'' 1), w)
      else if hd argv = ''sleep'' then (Inl (TimeoutExpired ''timed out''), w)
      else (Inl (FileNotFoundError (''[Errno 2] No such file or directory: '' @ hd argv)), w))"

definition demo_putenv ::
  "demo_machine world \<Rightarrow> string \<Rightarrow> string \<Rightarrow> exn option \<times> demo_machine world" where
  "demo_putenv w var val =
     (if var = [] then (Some (ValueError ''illegal environment variable name''), w)
      else (None, w))"

definition demo_os :: "demo_machine os" where
  "demo_os =
     \<lparr> shlex_split = demo_split,
       subprocess_run = demo_run,
       environ = (\<lambda>w. [(''HOME'', ''/home/user'')]),
       putenv = demo_putenv,
       expanduser = demo_expanduser,
       isabs = (\<lambda>p. startswith p ''/''),
       path_join = (\<lambda>a b. if startswith b ''/'' then b else a @ ''/'' @ b),
       abspath = demo_abspath,
       basename = demo_basename,
       isdir = demo_isdir,
       isfile = demo_isfile,
       path_exists = (\<lambda>w p. demo_isdir w p \<or> demo_isfile w p),
       listdir = demo_listdir,
       stat_line = (\<lambda>w p. None),
       chdir_raises = (\<lambda>w p. None),
       os_remove = demo_remove,
       rmtree = demo_rmtree,
       sys_handler = (\<lambda>b w cwd args. (Inr [], w)) \<rparr>"

definition demo_world :: "demo_machine world" where
  "demo_world =
     \<lparr> process_cwd = ''/srv'',
       machine = ([''/'', ''/srv'', ''/srv/d'', ''/tmp'', ''/root''],
                  [''/srv/notes.txt'', ''/srv/d/-a'', ''/srv/d/.b'']) \<rparr>"

section \<open>Properties of the command engine\<close>

lemma run_builtin_history:
  "run_builtin os b w s args = (r, s', w') \<Longrightarrow> command_history s' = command_history s"
  by (cases b)
     (auto simp: run_builtin_def cmd_cd_def cmd_alias_def cmd_set_def Let_def
           split: prod.splits sum.splits exn.splits list.splits if_splits option.splits)

lemma execute_command_history:
  "command_history (fst (snd (execute_command os w s command_line))) =
     (if py_strip command_line = [] then command_history s
      else limit_history (command_history s @ [command_line]))"
  by (auto simp: execute_command_def Let_def dest!: run_builtin_history
           split: sum.splits list.splits option.splits prod.splits)

lemma limit_history_length: "length (limit_history h) \<le> 1000"
  by (simp add: limit_history_def)

lemma limit_history_last: "last (limit_history (h @ [x])) = x"
  by (simp add: limit_history_def)

lemma limit_history_drop:
  "limit_history (h @ [x]) = drop (length h + 1 - 1000) (h @ [x])"
  by (simp add: limit_history_def)

lemma execute_command_bound:
  "length (command_history s) \<le> 1000 \<Longrightarrow>
   length (command_history (fst (snd (execute_command os w s command_line)))) \<le> 1000"
  by (simp add: execute_command_history limit_history_length)

lemma execute_lines_bound:
  "length (command_history s) \<le> 1000 \<Longrightarrow>
   length (command_history (fst (execute_lines os w s command_lines))) \<le> 1000"
proof (induction command_lines arbitrary: w s)
  case Nil
  then show ?case by simp
next
  case (Cons l ls)
  obtain r s' w' where step: "execute_command os w s l = (r, s', w')"
    by (cases "execute_command os w s l") auto
  from execute_command_bound [OF Cons.prems, of os w l] step
  have "length (command_history s') \<le> 1000" by simp
  from Cons.IH [OF this] step show ?case by simp
qed

text \<open>
  Claim C1. A line that is not blank (the non-empty line of the specification, whose
  empty line is an empty or white-space-only one: such a line returns at once and leaves
  the history) is appended to the history whatever the command does. The statement holds
  for every operating system, so also when parsing fails or a builtin raises: the
  history afterwards is the old one with the line at its end, cut from the front to its
  last 1000 entries, so the line is the last entry. The history of a terminal never
  holds more than 1000 entries, after any sequence of commands.
\<close>

theorem history_bounded_latest_last:
  "(py_strip command_line = [] \<longrightarrow>
      execute_command os w s command_line = (([], 0), s, w)) \<and>
   (py_strip command_line \<noteq> [] \<longrightarrow>
      command_history (fst (snd (execute_command os w s command_line)))
        = drop (length (command_history s) + 1 - 1000) (command_history s @ [command_line]) \<and>
      last (command_history (fst (snd (execute_command os w s command_line)))) = command_line \<and>
      length (command_history (fst (snd (execute_command os w s command_line)))) \<le> 1000) \<and>
   (length (command_history s) \<le> 1000 \<longrightarrow>
      length (command_history (fst (execute_lines os w s command_lines))) \<le> 1000) \<and>
   length (command_history (fst (execute_lines os w (init os w) command_lines))) \<le> 1000"
proof (intro conjI impI)
  assume "py_strip command_line = []"
  then show "execute_command os w s command_line = (([], 0), s, w)"
    by (simp add: execute_command_def)
next
  assume "py_strip command_line \<noteq> []"
  then have one: "command_history (fst (snd (execute_command os w s command_line)))
        = limit_history (command_history s @ [command_line])"
    by (simp add: execute_command_history)
  show "command_history (fst (snd (execute_command os w s command_line)))
        = drop (length (command_history s) + 1 - 1000) (command_history s @ [command_line])"
    unfolding one by (rule limit_history_drop)
  show "last (command_history (fst (snd (execute_command os w s command_line)))) = command_line"
    unfolding one by (rule limit_history_last)
  show "length (command_history (fst (snd (execute_command os w s command_line)))) \<le> 1000"
    unfolding one by (rule limit_history_length)
next
  assume "length (command_history s) \<le> 1000"
  then show "length (command_history (fst (execute_lines os w s command_lines))) \<le> 1000"
    by (rule execute_lines_bound)
next
  have "length (command_history (init os w)) \<le> 1000"
    by (simp add: init_def)
  then show "length (command_history (fst (execute_lines os w (init os w) command_lines))) \<le> 1000"
    by (rule execute_lines_bound)
qed

theorem history_bounded_latest_last_witness:
  "py_strip ''set =x'' \<noteq> [] \<and>
   fst (execute_command demo_os demo_world (init demo_os demo_world) ''set =x'')
     = (''Error executing set: illegal environment variable name'', 1) \<and>
   command_history (fst (snd (execute_command demo_os demo_world (init demo_os demo_world) ''set =x'')))
     = [''set =x''] \<and>
   command_history (fst (snd (execute_command demo_os demo_world
       ((init demo_os demo_world)\<lparr>command_history := replicate 1000 ''ls''\<rparr>) ''pwd'')))
     = replicate 999 ''ls'' @ [''pwd''] \<and>
   length (command_history (fst (execute_lines demo_os demo_world (init demo_os demo_world)
       [''pwd'', ''ls'']))) \<le> 1000"
proof -
  have a: "py_strip ''set =x'' \<noteq> []" and b: "py_strip ''pwd'' \<noteq> []"
    by (simp_all add: py_strip_def py_isspace_def)
  have c: "fst (execute_command demo_os demo_world (init demo_os demo_world) ''set =x'')
     = (''Error executing set: illegal environment variable name'', 1)"
    by code_simp
  have d: "command_history (init demo_os demo_world) = []"
    by (simp add: init_def)
  note t1 = history_bounded_latest_last
      [of "''set =x''" demo_os demo_world "init demo_os demo_world" "[''pwd'', ''ls'']"]
  note t2 = history_bounded_latest_last
      [of "''pwd''" demo_os demo_world
          "(init demo_os demo_world)\<lparr>command_history := replicate 1000 ''ls''\<rparr>" "[]"]
  have e: "command_history (fst (snd (execute_command demo_os demo_world
             (init demo_os demo_world) ''set =x''))) = [''set =x'']"
    using t1 a by (simp add: d)
  have f: "command_history (fst (snd (execute_command demo_os demo_world
       ((init demo_os demo_world)\<lparr>command_history := replicate 1000 ''ls''\<rparr>) ''pwd'')))
     = replicate 999 ''ls'' @ [''pwd'']"
    using t2 b by simp
  have g: "length (command_history (fst (execute_lines demo_os demo_world
       (init demo_os demo_world) [''pwd'', ''ls'']))) \<le> 1000"
    using t1 by blast
  show ?thesis using a c e f g by blast
qed

text \<open>
  Claim C4. An external command: when \<open>subprocess.run\<close> raises \<open>FileNotFoundError\<close>
  (the executable is not found) the result is the message \<open>Command not found\<close> with the
  name and the code 127; when it raises \<open>TimeoutExpired\<close> (30 seconds) the result is the
  time-out message and the code 1; when the child was launched and has ended the output
  is its standard output followed by its standard error, and the code is the child's.
\<close>

theorem external_command_results:
  "(subprocess_run os w (command # args) (current_directory s) = (Inl (FileNotFoundError d), w')
      \<longrightarrow> execute_external_command os w s command args
            = ((''Command not found: '' @ command, 127), w')) \<and>
   (subprocess_run os w (command # args) (current_directory s) = (Inl (TimeoutExpired d), w')
      \<longrightarrow> execute_external_command os w s command args
            = ((''Command timed out after 30 seconds'', 1), w')) \<and>
   (subprocess_run os w (command # args) (current_directory s)
        = (Inr (CompletedProcess out err rc), w')
      \<longrightarrow> execute_external_command os w s command args = ((out @ err, rc), w'))"
  by (simp add: execute_external_command_def)

theorem external_command_results_witness:
  "execute_external_command demo_os demo_world (init demo_os demo_world) ''nonexistent_cmd_xyz'' []
     = ((''Command not found: nonexistent_cmd_xyz'', 127), demo_world) \<and>
   execute_external_command demo_os demo_world (init demo_os demo_world) ''sleep'' [''60'']
     = ((''Command timed out after 30 seconds'', 1), demo_world) \<and>
   execute_external_command demo_os demo_world (init demo_os demo_world) ''cc'' [''x.c'']
     = ((''a.outwarning'', 1), demo_world)"
proof -
  let ?s = "init demo_os demo_world"
  have a: "subprocess_run demo_os demo_world (''nonexistent_cmd_xyz'' # []) (current_directory ?s)
      = (Inl (FileNotFoundError ''[Errno 2] No such file or directory: nonexistent_cmd_xyz''),
         demo_world)"
    by (simp add: demo_os_def demo_run_def)
  have b: "subprocess_run demo_os demo_world (''sleep'' # [''60'']) (current_directory ?s)
      = (Inl (TimeoutExpired ''timed out''), demo_world)"
    by (simp add: demo_os_def demo_run_def)
  have c: "subprocess_run demo_os demo_world (''cc'' # [''x.c'']) (current_directory ?s)
      = (Inr (CompletedProcess ''a.out'' ''warning'' 1), demo_world)"
    by (simp add: demo_os_def demo_run_def)
  show ?thesis
    using external_command_results [of demo_os demo_world "''nonexistent_cmd_xyz''" "[]" ?s
            "''[Errno 2] No such file or directory: nonexistent_cmd_xyz''" demo_world] a
          external_command_results [of demo_os demo_world "''sleep''" "[''60'']" ?s
            "''timed out''" demo_world] b
          external_command_results [of demo_os demo_world "''cc''" "[''x.c'']" ?s
            _ demo_world "''a.out''" "''warning''" 1] c
    by simp
qed

text \<open>
  Claim C3. A line whose first token, after the alias table was applied to it once,
  names a builtin: if the handler raises \<open>e\<close>, \<open>execute_command\<close> returns the message
  \<open>Error executing\<close> with the name and \<open>str(e)\<close>, and the code 1; the exception does not
  leave \<open>execute_command\<close>, which returns a pair in every case. If the handler returns,
  its output is returned with the code 0, also when the output reports an error: \<open>ls\<close> of
  a path that does not exist, or of a directory that may not be listed.
\<close>

theorem builtin_failure_boundary:
  assumes "py_strip command_line \<noteq> []"
    and "shlex_split os command_line = Inr (name # args)"
    and "command = (case map_of (aliases s) name of Some v \<Rightarrow> v | None \<Rightarrow> name)"
    and "map_of builtin_commands command = Some b"
    and "sh = s\<lparr>command_history := limit_history (command_history s @ [command_line])\<rparr>"
  shows
    "(\<forall>e s' w'. run_builtin os b w sh args = (Inl e, s', w') \<longrightarrow>
        execute_command os w s command_line
          = ((''Error executing '' @ command @ '': '' @ str_of e, 1), s', w')) \<and>
     (\<forall>out s' w'. run_builtin os b w sh args = (Inr out, s', w') \<longrightarrow>
        execute_command os w s command_line = ((out, 0), s', w')) \<and>
     (\<forall>p rest. b = Ls \<and> args = p # rest \<and> \<not> path_exists os w p \<longrightarrow>
        execute_command os w s command_line = ((''Path not found: '' @ p, 0), sh, w)) \<and>
     (\<forall>p rest d. b = Ls \<and> args = p # rest \<and> path_exists os w p \<and> \<not> isfile os w p \<and>
          listdir os w p = Inl (PermissionError d) \<longrightarrow>
        execute_command os w s command_line = ((''Permission denied: '' @ p, 0), sh, w))"
proof -
  have resolved: "(case map_of (aliases sh) name of Some v \<Rightarrow> v | None \<Rightarrow> name) = command"
    using assms(3,5) by simp
  have exec: "execute_command os w s command_line =
      (case run_builtin os b w sh args of
         (Inr out, s', w') \<Rightarrow> ((out, 0), s', w')
       | (Inl e, s', w') \<Rightarrow> ((''Error executing '' @ command @ '': '' @ str_of e, 1), s', w'))"
    using assms(1,2,4) resolved unfolding assms(5) execute_command_def Let_def
    by (auto split: prod.splits sum.splits)
  have lsh: "\<not> path_exists os w p \<Longrightarrow> run_builtin os Ls w sh (p # rest)
      = (Inr (''Path not found: '' @ p), sh, w)" for p rest
    by (simp add: run_builtin_def cmd_ls_def)
  have ls2: "path_exists os w p \<Longrightarrow> \<not> isfile os w p \<Longrightarrow> listdir os w p = Inl (PermissionError d)
      \<Longrightarrow> run_builtin os Ls w sh (p # rest) = (Inr (''Permission denied: '' @ p), sh, w)"
    for p rest d
    by (simp add: run_builtin_def cmd_ls_def)
  show ?thesis
    unfolding exec using lsh ls2 by auto
qed

theorem builtin_failure_boundary_witness:
  "execute_command demo_os demo_world (init demo_os demo_world) ''set =x''
     = ((''Error executing set: illegal environment variable name'', 1),
        (init demo_os demo_world)
          \<lparr>command_history := [''set =x''],
           environment_vars := [(''HOME'', ''/home/user''), ([], ''x'')]\<rparr>,
        demo_world) \<and>
   execute_command demo_os demo_world (init demo_os demo_world) ''ls /nope''
     = ((''Path not found: /nope'', 0),
        (init demo_os demo_world)\<lparr>command_history := [''ls /nope'']\<rparr>, demo_world) \<and>
   execute_command demo_os demo_world (init demo_os demo_world) ''ls /root''
     = ((''Permission denied: /root'', 0),
        (init demo_os demo_world)\<lparr>command_history := [''ls /root'']\<rparr>, demo_world)"
proof -
  let ?s = "init demo_os demo_world"
  have nb: "py_strip ''set =x'' \<noteq> []" "py_strip ''ls /nope'' \<noteq> []" "py_strip ''ls /root'' \<noteq> []"
    by (simp_all add: py_strip_def py_isspace_def)
  have sp: "shlex_split demo_os ''set =x'' = Inr (''set'' # [''=x''])"
    "shlex_split demo_os ''ls /nope'' = Inr (''ls'' # [''/nope''])"
    "shlex_split demo_os ''ls /root'' = Inr (''ls'' # [''/root''])"
    by (simp_all add: demo_os_def demo_split_def py_isspace_def)
  have al: "''set'' = (case map_of (aliases ?s) ''set'' of Some v \<Rightarrow> v | None \<Rightarrow> ''set'')"
    "''ls'' = (case map_of (aliases ?s) ''ls'' of Some v \<Rightarrow> v | None \<Rightarrow> ''ls'')"
    by (simp_all add: init_def)
  have bi: "map_of builtin_commands ''set'' = Some SetVar" "map_of builtin_commands ''ls'' = Some Ls"
    by (simp_all add: builtin_commands_def)
  have h: "?s\<lparr>command_history := [l]\<rparr>
      = ?s\<lparr>command_history := limit_history (command_history ?s @ [l])\<rparr>" for l
    by (simp add: init_def limit_history_def)
  have raise: "run_builtin demo_os SetVar demo_world (?s\<lparr>command_history := [''set =x'']\<rparr>) [''=x'']
      = (Inl (ValueError ''illegal environment variable name''),
         ?s\<lparr>command_history := [''set =x''],
             environment_vars := [(''HOME'', ''/home/user''), ([], ''x'')]\<rparr>, demo_world)"
    by (simp add: run_builtin_def cmd_set_def split_eq_def demo_os_def demo_putenv_def init_def)
  have nope: "\<not> path_exists demo_os demo_world ''/nope''"
    by (simp add: demo_os_def demo_isdir_def demo_isfile_def demo_resolve_def demo_world_def
          startswith_def)
  have root: "path_exists demo_os demo_world ''/root''" "\<not> isfile demo_os demo_world ''/root''"
    "listdir demo_os demo_world ''/root''
       = Inl (PermissionError ''[Errno 13] Permission denied: /root'')"
    by (simp_all add: demo_os_def demo_isdir_def demo_isfile_def demo_resolve_def demo_world_def
          startswith_def demo_listdir_def)
  from builtin_failure_boundary [OF nb(1) sp(1) al(1) bi(1) h, of demo_world] raise
  have a: "execute_command demo_os demo_world ?s ''set =x''
     = ((''Error executing set: illegal environment variable name'', 1),
        ?s\<lparr>command_history := [''set =x''],
            environment_vars := [(''HOME'', ''/home/user''), ([], ''x'')]\<rparr>, demo_world)"
    by simp
  from builtin_failure_boundary [OF nb(2) sp(2) al(2) bi(2) h, of demo_world] nope
  have b: "execute_command demo_os demo_world ?s ''ls /nope''
     = ((''Path not found: /nope'', 0), ?s\<lparr>command_history := [''ls /nope'']\<rparr>, demo_world)"
    by simp
  from builtin_failure_boundary [OF nb(3) sp(3) al(2) bi(2) h, of demo_world] root
  have c: "execute_command demo_os demo_world ?s ''ls /root''
     = ((''Permission denied: /root'', 0), ?s\<lparr>command_history := [''ls /root'']\<rparr>, demo_world)"
    by simp
  show ?thesis using a b c by blast
qed

lemma builtin_names_no_space:
  "map_of builtin_commands v = Some b \<Longrightarrow> c \<in> set v \<Longrightarrow> \<not> py_isspace c"
proof -
  assume "map_of builtin_commands v = Some b" and c: "c \<in> set v"
  then have "v \<in> fst ` set builtin_commands"
    by (metis map_of_eq_None_iff option.distinct(1))
  then have "\<forall>c \<in> set v. \<not> py_isspace c"
    unfolding builtin_commands_def by (auto simp: py_isspace_def)
  with c show ?thesis by blast
qed

text \<open>
  Claim C9. The value of an alias replaces the first token as it is, and is not split
  into tokens again: a value that holds a white-space character names no builtin, and
  the whole value is the first element of the argument vector given to
  \<open>subprocess.run\<close>, followed by the arguments of the line.
\<close>

theorem alias_value_one_command_name:
  assumes "py_strip command_line \<noteq> []"
    and "shlex_split os command_line = Inr (name # args)"
    and "map_of (aliases s) name = Some v"
    and "\<exists>c \<in> set v. py_isspace c"
    and "sh = s\<lparr>command_history := limit_history (command_history s @ [command_line])\<rparr>"
  shows
    "map_of builtin_commands v = None \<and>
     execute_command os w s command_line
       = (case execute_external_command os w sh v args of (r, w') \<Rightarrow> (r, sh, w')) \<and>
     (\<forall>d w'. subprocess_run os w (v # args) (current_directory s) = (Inl (FileNotFoundError d), w')
        \<longrightarrow> execute_command os w s command_line = ((''Command not found: '' @ v, 127), sh, w')) \<and>
     (\<forall>result w'. subprocess_run os w (v # args) (current_directory s) = (Inr result, w')
        \<longrightarrow> execute_command os w s command_line
              = ((stdout result @ stderr result, returncode result), sh, w'))"
proof -
  have none: "map_of builtin_commands v = None"
    using assms(4) builtin_names_no_space [of v] by (cases "map_of builtin_commands v") auto
  have exec: "execute_command os w s command_line
       = (case execute_external_command os w sh v args of (r, w') \<Rightarrow> (r, sh, w'))"
    using assms(1,2,3) none unfolding assms(5) execute_command_def Let_def by simp
  show ?thesis
    unfolding exec using none
    by (auto simp: execute_external_command_def assms(5) Let_def)
qed

theorem alias_value_one_command_name_witness:
  "execute_command demo_os demo_world (init demo_os demo_world)
       (''alias ll='' @ [CHR 0x27] @ ''ls -l'' @ [CHR 0x27])
     = ((''Alias created: ll = ls -l'', 0),
        (init demo_os demo_world)
          \<lparr>command_history := [''alias ll='' @ [CHR 0x27] @ ''ls -l'' @ [CHR 0x27]],
           aliases := [(''ll'', ''ls -l'')]\<rparr>,
        demo_world) \<and>
   fst (execute_command demo_os demo_world
          ((init demo_os demo_world)
             \<lparr>command_history := [''alias ll='' @ [CHR 0x27] @ ''ls -l'' @ [CHR 0x27]],
              aliases := [(''ll'', ''ls -l'')]\<rparr>)
          ''ll -a'')
     = (''Command not found: ls -l'', 127)"
proof -
  let ?s = "(init demo_os demo_world)
             \<lparr>command_history := [''alias ll='' @ [CHR 0x27] @ ''ls -l'' @ [CHR 0x27]],
              aliases := [(''ll'', ''ls -l'')]\<rparr>"
  have first: "execute_command demo_os demo_world (init demo_os demo_world)
       (''alias ll='' @ [CHR 0x27] @ ''ls -l'' @ [CHR 0x27])
     = ((''Alias created: ll = ls -l'', 0), ?s, demo_world)"
    by (simp add: execute_command_def py_strip_def py_isspace_def demo_os_def demo_split_def
          init_def limit_history_def builtin_commands_def run_builtin_def cmd_alias_def
          split_eq_def)
  have nb: "py_strip ''ll -a'' \<noteq> []"
    by (simp add: py_strip_def py_isspace_def)
  have sp: "shlex_split demo_os ''ll -a'' = Inr (''ll'' # [''-a''])"
    by (simp add: demo_os_def demo_split_def py_isspace_def)
  have al: "map_of (aliases ?s) ''ll'' = Some ''ls -l''"
    by simp
  have ws: "\<exists>c \<in> set ''ls -l''. py_isspace c"
    by (simp add: py_isspace_def)
  have run: "subprocess_run demo_os demo_world (''ls -l'' # [''-a'']) (current_directory ?s)
      = (Inl (FileNotFoundError ''[Errno 2] No such file or directory: ls -l''), demo_world)"
    by (simp add: demo_os_def demo_run_def)
  from alias_value_one_command_name [OF nb sp al ws refl, of demo_world] run
  have "\<exists>t. execute_command demo_os demo_world ?s ''ll -a''
          = ((''Command not found: '' @ ''ls -l'', 127), t, demo_world)"
    by blast
  then have "fst (execute_command demo_os demo_world ?s ''ll -a'') = (''Command not found: ls -l'', 127)"
    by auto
  with first show ?thesis by blast
qed

text \<open>
  Claim C5 as stated fails: \<open>cmd_cd\<close> tests the path after \<open>os.path.abspath\<close> has
  cancelled every \<open>..\<close> against the name before it, without asking whether that name is
  there. On the small machine, in \<open>/srv\<close>, the path \<open>missing/../d\<close> is no directory
  (\<open>/srv/missing\<close> is not there), yet \<open>cd missing/../d\<close> changes the working directory to
  \<open>/srv/d\<close>. Nor is the answer always the message \<open>Directory not found\<close> when nothing is
  changed: for \<open>~\<close> followed by a null character \<open>expanduser\<close> raises before the \<open>try\<close>
  and the answer is that of the failure boundary, with code 1.
\<close>

theorem cd_missing_parent_changes_directory:
  "\<not> isdir demo_os demo_world ''missing/../d'' \<and>
   \<not> isdir demo_os demo_world ''/srv/missing/../d'' \<and>
   \<not> path_exists demo_os demo_world ''/srv/missing'' \<and>
   current_directory (init demo_os demo_world) = ''/srv'' \<and>
   fst (execute_command demo_os demo_world (init demo_os demo_world) ''cd missing/../d'')
     = (''Changed directory to: /srv/d'', 0) \<and>
   current_directory (fst (snd (execute_command demo_os demo_world (init demo_os demo_world)
     ''cd missing/../d''))) = ''/srv/d'' \<and>
   \<not> isdir demo_os demo_world (''~'' @ [CHR 0x00]) \<and>
   fst (execute_command demo_os demo_world (init demo_os demo_world) (''cd ~'' @ [CHR 0x00]))
     = (''Error executing cd: embedded null byte'', 1)"
proof -
  have a: "\<not> isdir demo_os demo_world ''missing/../d''"
    "\<not> isdir demo_os demo_world ''/srv/missing/../d''"
    "\<not> path_exists demo_os demo_world ''/srv/missing''"
    "\<not> isdir demo_os demo_world (''~'' @ [CHR 0x00])"
    by (simp_all add: demo_os_def demo_isdir_def demo_isfile_def demo_resolve_def startswith_def
          demo_world_def)
  have b: "current_directory (init demo_os demo_world) = ''/srv''"
    by (simp add: init_def demo_world_def)
  have n: "demo_normpath ''/srv/missing/../d'' = ''/srv/d''"
    by (simp add: demo_normpath_def startswith_def Let_def)
  have c: "execute_command demo_os demo_world (init demo_os demo_world) ''cd missing/../d''
      = ((''Changed directory to: /srv/d'', 0),
         (init demo_os demo_world)
           \<lparr>current_directory := ''/srv/d'', command_history := [''cd missing/../d'']\<rparr>,
         demo_world\<lparr>process_cwd := ''/srv/d''\<rparr>)"
    by (simp add: execute_command_def Let_def py_strip_def py_isspace_def
          demo_os_def demo_split_def init_def limit_history_def builtin_commands_def
          run_builtin_def cmd_cd_def cd_given_def startswith_def demo_resolve_def
          demo_abspath_def n demo_isdir_def demo_world_def os_chdir_def)
  have d: "fst (execute_command demo_os demo_world (init demo_os demo_world) (''cd ~'' @ [CHR 0x00]))
      = (''Error executing cd: embedded null byte'', 1)"
    by (simp add: execute_command_def Let_def py_strip_def py_isspace_def
          demo_os_def demo_split_def init_def limit_history_def builtin_commands_def
          run_builtin_def cmd_cd_def cd_given_def startswith_def demo_expanduser_def)
  show ?thesis
    unfolding c using a b d by simp
qed

text \<open>
  Claim C5, amended. The path that decides is \<open>cd_target\<close>, the path asked for after
  \<open>expanduser\<close>, the join with the working directory of the session and \<open>abspath\<close>. For a
  command line that \<open>shlex.split\<close> reads as \<open>cd\<close> and its arguments, with no alias for
  \<open>cd\<close>: when \<open>cd_target\<close> is not an existing directory, or cannot be computed, the
  working directory of the session and the world are left as they are, and the answer is
  \<^item> \<open>Directory not found:\<close> and the target, with code 0, when the target is computed;
  \<^item> \<open>Error executing cd:\<close> and the text of the exception, with code 1, when \<open>expanduser\<close>
    raises (the call stands before the \<open>try\<close>);
  \<^item> the message of the \<open>except\<close> clause, with code 0, when \<open>abspath\<close> raises.
\<close>

theorem cd_without_directory:
  assumes "py_strip command_line \<noteq> []"
    and "shlex_split os command_line = Inr (''cd'' # args)"
    and "map_of (aliases s) ''cd'' = None"
    and "\<forall>target. cd_target os w s args = Inr target \<longrightarrow> \<not> isdir os w target"
  shows
    "current_directory (fst (snd (execute_command os w s command_line))) = current_directory s \<and>
     snd (snd (execute_command os w s command_line)) = w \<and>
     (\<forall>target. cd_target os w s args = Inr target \<longrightarrow>
        cmd_cd os w s args = (Inr (''Directory not found: '' @ target), s, w) \<and>
        fst (execute_command os w s command_line) = (''Directory not found: '' @ target, 0)) \<and>
     (\<forall>e. cd_given os w s args = Inl e \<longrightarrow>
        cmd_cd os w s args = (Inl e, s, w) \<and>
        fst (execute_command os w s command_line) = (''Error executing cd: '' @ str_of e, 1)) \<and>
     (\<forall>given e. cd_given os w s args = Inr given \<and> abspath os w given = Inl e \<longrightarrow>
        cmd_cd os w s args = (Inr (cd_except given e), s, w) \<and>
        fst (execute_command os w s command_line) = (cd_except given e, 0))"
proof -
  define t where "t = s\<lparr>command_history := limit_history (command_history s @ [command_line])\<rparr>"
  have given: "cd_given os w t args = cd_given os w s args"
    by (simp add: cd_given_def t_def split: list.splits)
  have bi: "map_of builtin_commands ''cd'' = Some Cd"
    by (simp add: builtin_commands_def)
  have run: "execute_command os w s command_line =
      (case cmd_cd os w t args of
         (Inl e, s', w') \<Rightarrow> ((''Error executing cd: '' @ str_of e, 1), s', w')
       | (Inr out, s', w') \<Rightarrow> ((out, 0), s', w'))"
    using assms(1,2,3)
    by (simp add: execute_command_def Let_def bi run_builtin_def t_def
          split: prod.splits sum.splits)
  have cwd: "current_directory t = current_directory s"
    by (simp add: t_def)
  show ?thesis
  proof (cases "cd_given os w s args")
    case (Inl e)
    then have "cmd_cd os w u args = (Inl e, u, w)" if "cd_given os w u args = cd_given os w s args" for u
      using that by (simp add: cmd_cd_def)
    from this [of s] this [of t] given Inl show ?thesis
      by (simp add: run cwd cd_target_def)
  next
    case given_s: (Inr g)
    show ?thesis
    proof (cases "abspath os w g")
      case (Inl e)
      with given_s have "cmd_cd os w u args = (Inr (cd_except g e), u, w)"
        if "cd_given os w u args = cd_given os w s args" for u
        using that by (simp add: cmd_cd_def)
      from this [of s] this [of t] given given_s Inl show ?thesis
        by (simp add: run cwd cd_target_def)
    next
      case (Inr target)
      with given_s assms(4) have nd: "\<not> isdir os w target"
        by (simp add: cd_target_def)
      with given_s Inr have "cmd_cd os w u args = (Inr (''Directory not found: '' @ target), u, w)"
        if "cd_given os w u args = cd_given os w s args" for u
        using that by (simp add: cmd_cd_def)
      from this [of s] this [of t] given given_s Inr show ?thesis
        by (simp add: run cwd cd_target_def)
    qed
  qed
qed

theorem cd_without_directory_witness:
  "cd_target demo_os demo_world (init demo_os demo_world) [''nowhere''] = Inr ''/srv/nowhere'' \<and>
   \<not> isdir demo_os demo_world ''/srv/nowhere'' \<and>
   execute_command demo_os demo_world (init demo_os demo_world) ''cd nowhere''
     = ((''Directory not found: /srv/nowhere'', 0),
        (init demo_os demo_world)\<lparr>command_history := [''cd nowhere'']\<rparr>, demo_world) \<and>
   cd_given demo_os demo_world (init demo_os demo_world) [''~'' @ [CHR 0x00]]
     = Inl (ValueError ''embedded null byte'') \<and>
   fst (execute_command demo_os demo_world (init demo_os demo_world) (''cd ~'' @ [CHR 0x00]))
     = (''Error executing cd: embedded null byte'', 1) \<and>
   current_directory (fst (snd (execute_command demo_os demo_world (init demo_os demo_world)
     (''cd ~'' @ [CHR 0x00])))) = ''/srv'' \<and>
   cd_given demo_os (demo_world\<lparr>process_cwd := ''/gone''\<rparr>) (init demo_os demo_world) [''~nobody'']
     = Inr ''~nobody'' \<and>
   abspath demo_os (demo_world\<lparr>process_cwd := ''/gone''\<rparr>) ''~nobody''
     = Inl (FileNotFoundError ''[Errno 2] No such file or directory'') \<and>
   fst (execute_command demo_os (demo_world\<lparr>process_cwd := ''/gone''\<rparr>) (init demo_os demo_world)
     ''cd ~nobody'')
     = (''Error changing directory: [Errno 2] No such file or directory'', 0) \<and>
   current_directory (fst (snd (execute_command demo_os (demo_world\<lparr>process_cwd := ''/gone''\<rparr>)
     (init demo_os demo_world) ''cd ~nobody''))) = ''/srv''"
proof -
  let ?s = "init demo_os demo_world"
  let ?nul = "''~'' @ [CHR 0x00]"
  let ?gone = "demo_world\<lparr>process_cwd := ''/gone''\<rparr>"
  have al: "map_of (aliases ?s) ''cd'' = None"
    by (simp add: init_def)
  have cwd: "current_directory ?s = ''/srv''"
    by (simp add: init_def demo_world_def)
  have hist: "command_history ?s = []"
    by (simp add: init_def)
  \<comment> \<open>a directory that is not there\<close>
  have n1: "demo_normpath ''/srv/nowhere'' = ''/srv/nowhere''"
    by (simp add: demo_normpath_def startswith_def Let_def)
  have g1: "cd_given demo_os demo_world ?s [''nowhere''] = Inr ''/srv/nowhere''"
    by (simp add: cd_given_def demo_os_def startswith_def init_def demo_world_def)
  have t1: "cd_target demo_os demo_world ?s [''nowhere''] = Inr ''/srv/nowhere''"
    by (simp add: cd_target_def g1)
       (simp add: demo_os_def demo_abspath_def startswith_def n1)
  have d1: "\<not> isdir demo_os demo_world ''/srv/nowhere''"
    by (simp add: demo_os_def demo_isdir_def demo_resolve_def startswith_def demo_world_def)
  have nb1: "py_strip ''cd nowhere'' \<noteq> []"
    by (simp add: py_strip_def py_isspace_def)
  have sp1: "shlex_split demo_os ''cd nowhere'' = Inr (''cd'' # [''nowhere''])"
    by (simp add: demo_os_def demo_split_def py_isspace_def)
  have h1: "\<forall>target. cd_target demo_os demo_world ?s [''nowhere''] = Inr target \<longrightarrow>
      \<not> isdir demo_os demo_world target"
    using d1 by (simp add: t1)
  have e1: "command_history (fst (snd (execute_command demo_os demo_world ?s ''cd nowhere'')))
      = [''cd nowhere'']"
    by (simp add: execute_command_history nb1 hist limit_history_def)
  note r1 = cd_without_directory [OF nb1 sp1 al h1]
  have x1: "execute_command demo_os demo_world ?s ''cd nowhere''
      = ((''Directory not found: /srv/nowhere'', 0), ?s\<lparr>command_history := [''cd nowhere'']\<rparr>,
         demo_world)"
  proof -
    from r1 t1 have "fst (execute_command demo_os demo_world ?s ''cd nowhere'')
        = (''Directory not found: /srv/nowhere'', 0)"
      and "snd (snd (execute_command demo_os demo_world ?s ''cd nowhere'')) = demo_world"
      by simp_all
    moreover have "fst (snd (execute_command demo_os demo_world ?s ''cd nowhere''))
        = ?s\<lparr>command_history := [''cd nowhere'']\<rparr>"
      by (simp add: execute_command_def Let_def py_strip_def py_isspace_def
            demo_os_def demo_split_def init_def limit_history_def builtin_commands_def
            run_builtin_def cmd_cd_def cd_given_def startswith_def demo_resolve_def
            demo_abspath_def n1 demo_isdir_def demo_world_def)
    ultimately show ?thesis
      by (metis prod.collapse)
  qed
  \<comment> \<open>a user name that cannot be looked up\<close>
  have g2: "cd_given demo_os demo_world ?s [?nul] = Inl (ValueError ''embedded null byte'')"
    by (simp add: cd_given_def demo_os_def startswith_def demo_expanduser_def)
  have nb2: "py_strip (''cd ~'' @ [CHR 0x00]) \<noteq> []"
    by (simp add: py_strip_def py_isspace_def)
  have sp2: "shlex_split demo_os (''cd ~'' @ [CHR 0x00]) = Inr (''cd'' # [?nul])"
    by (simp add: demo_os_def demo_split_def py_isspace_def)
  have h2: "\<forall>target. cd_target demo_os demo_world ?s [?nul] = Inr target \<longrightarrow>
      \<not> isdir demo_os demo_world target"
    using g2 by (simp add: cd_target_def)
  from cd_without_directory [OF nb2 sp2 al h2] g2 cwd
  have x2: "fst (execute_command demo_os demo_world ?s (''cd ~'' @ [CHR 0x00]))
        = (''Error executing cd: embedded null byte'', 1) \<and>
      current_directory (fst (snd (execute_command demo_os demo_world ?s (''cd ~'' @ [CHR 0x00]))))
        = ''/srv''"
    by simp
  \<comment> \<open>a working directory of the process that is gone\<close>
  have g3: "cd_given demo_os ?gone ?s [''~nobody''] = Inr ''~nobody''"
    by (simp add: cd_given_def demo_os_def startswith_def demo_expanduser_def)
  have a3: "abspath demo_os ?gone ''~nobody''
      = Inl (FileNotFoundError ''[Errno 2] No such file or directory'')"
    by (simp add: demo_os_def demo_abspath_def startswith_def demo_world_def)
  have nb3: "py_strip ''cd ~nobody'' \<noteq> []"
    by (simp add: py_strip_def py_isspace_def)
  have sp3: "shlex_split demo_os ''cd ~nobody'' = Inr (''cd'' # [''~nobody''])"
    by (simp add: demo_os_def demo_split_def py_isspace_def)
  have h3: "\<forall>target. cd_target demo_os ?gone ?s [''~nobody''] = Inr target \<longrightarrow>
      \<not> isdir demo_os ?gone target"
    using g3 a3 by (simp add: cd_target_def)
  from cd_without_directory [OF nb3 sp3 al h3] g3 a3 cwd
  have x3: "fst (execute_command demo_os ?gone ?s ''cd ~nobody'')
        = (''Error changing directory: [Errno 2] No such file or directory'', 0) \<and>
      current_directory (fst (snd (execute_command demo_os ?gone ?s ''cd ~nobody''))) = ''/srv''"
    by (simp add: cd_except_def)
  from t1 d1 x1 g2 x2 g3 a3 x3 show ?thesis by blast
qed

text \<open>
  Claim C6 as stated fails: \<open>cmd_cd\<close> calls \<open>os.chdir\<close>, which sets the working
  directory of the process, a state that is not the session's and that every session
  of the process reads. On the small machine, after session \<open>a\<close> has run \<open>cd /tmp\<close> a
  session \<open>b\<close> that is created next (\<open>__init__\<close> reads \<open>os.getcwd()\<close>) answers \<open>pwd\<close>
  with \<open>/tmp\<close>, where it answers \<open>/srv\<close> when \<open>a\<close> has not run its command.
\<close>

theorem cd_seen_by_other_session:
  "fst (web_execute demo_os demo_world Map.empty ''a'' ''cd /tmp'')
     = (''Changed directory to: /tmp'', 0) \<and>
   process_cwd (snd (snd (web_execute demo_os demo_world Map.empty ''a'' ''cd /tmp'')))
     \<noteq> process_cwd demo_world \<and>
   fst (web_execute demo_os demo_world Map.empty ''b'' ''pwd'') = (''/srv'', 0) \<and>
   fst (web_execute demo_os
          (snd (snd (web_execute demo_os demo_world Map.empty ''a'' ''cd /tmp'')))
          (fst (snd (web_execute demo_os demo_world Map.empty ''a'' ''cd /tmp'')))
          ''b'' ''pwd'')
     = (''/tmp'', 0)"
proof -
  have n: "demo_normpath ''/tmp'' = ''/tmp''"
    by (simp add: demo_normpath_def startswith_def Let_def)
  have a: "web_execute demo_os demo_world Map.empty ''a'' ''cd /tmp''
      = ((''Changed directory to: /tmp'', 0),
         [''a'' \<mapsto> (init demo_os demo_world)
                     \<lparr>current_directory := ''/tmp'', command_history := [''cd /tmp'']\<rparr>],
         demo_world\<lparr>process_cwd := ''/tmp''\<rparr>)"
    by (simp add: web_execute_def get_terminal_def execute_command_def Let_def py_strip_def py_isspace_def
          demo_os_def demo_split_def init_def limit_history_def builtin_commands_def
          run_builtin_def cmd_cd_def cd_given_def startswith_def demo_resolve_def
          demo_abspath_def n demo_isdir_def demo_world_def os_chdir_def)
  have b: "fst (web_execute demo_os demo_world Map.empty ''b'' ''pwd'') = (''/srv'', 0)"
    by (simp add: web_execute_def get_terminal_def execute_command_def Let_def py_strip_def py_isspace_def
          demo_os_def demo_split_def init_def limit_history_def builtin_commands_def
          run_builtin_def cmd_pwd_def demo_world_def)
  have c: "fst (web_execute demo_os (demo_world\<lparr>process_cwd := ''/tmp''\<rparr>)
         [''a'' \<mapsto> (init demo_os demo_world)
                     \<lparr>current_directory := ''/tmp'', command_history := [''cd /tmp'']\<rparr>]
         ''b'' ''pwd'') = (''/tmp'', 0)"
    by (simp add: web_execute_def get_terminal_def execute_command_def Let_def py_strip_def py_isspace_def
          demo_os_def demo_split_def init_def limit_history_def builtin_commands_def
          run_builtin_def cmd_pwd_def demo_world_def)
  show ?thesis
    unfolding a using b c by (simp add: demo_world_def)
qed

text \<open>
  Claim C6, amended. A \<open>cd\<close> that succeeds (the target is computed, it is a directory
  and \<open>os.chdir\<close> does not raise) sets the working directory of the session to the
  resolved target and leaves its other fields; it sets the working directory of the
  process to the same target and leaves the rest of the world. A command run for one
  session identifier leaves the terminal of every other session identifier as it was.
\<close>

theorem cd_success_effect:
  assumes "cd_target os w s args = Inr target"
    and "isdir os w target"
    and "chdir_raises os w target = None"
  shows
    "cmd_cd os w s args
       = (Inr (''Changed directory to: '' @ target),
          s\<lparr>current_directory := target\<rparr>,
          w\<lparr>process_cwd := target\<rparr>) \<and>
     (\<forall>other. other \<noteq> session_id \<longrightarrow>
        fst (snd (web_execute os w terminals session_id command_line)) other = terminals other)"
proof -
  have cd: "cmd_cd os w s args
       = (Inr (''Changed directory to: '' @ target),
          s\<lparr>current_directory := target\<rparr>,
          w\<lparr>process_cwd := target\<rparr>)"
    using assms
    by (auto simp: cmd_cd_def cd_target_def os_chdir_def Let_def split: sum.splits)
  have others: "fst (snd (web_execute os w terminals session_id command_line)) other
      = terminals other" if "other \<noteq> session_id" for other
    using that
    by (auto simp: web_execute_def get_terminal_def Let_def split: option.splits prod.splits)
  show ?thesis using cd others by blast
qed

theorem cd_success_effect_witness:
  "cd_target demo_os demo_world (init demo_os demo_world) [''/tmp''] = Inr ''/tmp'' \<and>
   isdir demo_os demo_world ''/tmp'' \<and>
   cmd_cd demo_os demo_world (init demo_os demo_world) [''/tmp'']
     = (Inr ''Changed directory to: /tmp'',
        (init demo_os demo_world)\<lparr>current_directory := ''/tmp''\<rparr>,
        demo_world\<lparr>process_cwd := ''/tmp''\<rparr>) \<and>
   fst (snd (web_execute demo_os demo_world [''b'' \<mapsto> init demo_os demo_world] ''a'' ''cd /tmp'')) ''b''
     = Some (init demo_os demo_world)"
proof -
  let ?s = "init demo_os demo_world"
  have n: "demo_normpath ''/tmp'' = ''/tmp''"
    by (simp add: demo_normpath_def startswith_def Let_def)
  have t: "cd_target demo_os demo_world ?s [''/tmp''] = Inr ''/tmp''"
    by (simp add: cd_target_def cd_given_def demo_os_def startswith_def demo_abspath_def n)
  have a: "isdir demo_os demo_world ''/tmp''"
    by (simp add: demo_os_def demo_isdir_def demo_resolve_def startswith_def demo_world_def)
  have b: "chdir_raises demo_os demo_world ''/tmp'' = None"
    by (simp add: demo_os_def)
  have ne: "''b'' \<noteq> ''a''" by simp
  from cd_success_effect [OF t a b, of "''a''" "[''b'' \<mapsto> ?s]" "''cd /tmp''"] ne
  have "cmd_cd demo_os demo_world ?s [''/tmp'']
     = (Inr ''Changed directory to: /tmp'', ?s\<lparr>current_directory := ''/tmp''\<rparr>,
        demo_world\<lparr>process_cwd := ''/tmp''\<rparr>) \<and>
   fst (snd (web_execute demo_os demo_world [''b'' \<mapsto> ?s] ''a'' ''cd /tmp'')) ''b'' = Some ?s"
    by simp
  with t a show ?thesis by blast
qed

lemma rm_loop_keeps:
  "remove_keeps_directories os \<Longrightarrow> isdir os w q \<Longrightarrow>
   isdir os (snd (rm_loop os s False force files results w)) q"
proof (induction files arbitrary: results w)
  case Nil
  then show ?case by simp
next
  case (Cons f files)
  show ?case
  proof (cases "isdir os w (rm_path os s f)")
    case True
    with Cons show ?thesis by simp
  next
    case False
    obtain e w' where rm: "os_remove os w (rm_path os s f) = (e, w')"
      by (cases "os_remove os w (rm_path os s f)") auto
    have "isdir os w' q"
      using Cons.prems False rm unfolding remove_keeps_directories_def
      by (metis snd_conv)
    from Cons.IH [OF Cons.prems(1) this] False rm show ?thesis
      by (cases e) simp_all
  qed
qed

lemma rm_loop_results_grow:
  "r \<in> set results \<Longrightarrow> r \<in> set (fst (rm_loop os s recursive force files results w))"
proof (induction files arbitrary: results w)
  case Nil
  then show ?case by simp
next
  case (Cons f files)
  have ex: "r \<in> set (rm_except force f e results)" for e
    using Cons.prems by (cases e) (simp_all add: rm_except_def)
  show ?case
    using Cons.IH Cons.prems ex
    by (auto simp: Let_def split: prod.splits option.splits)
qed

lemma rm_loop_refuses:
  "remove_keeps_directories os \<Longrightarrow> d \<in> set files \<Longrightarrow> isdir os w (rm_path os s d) \<Longrightarrow>
   (''Cannot remove directory '' @ d @ '': use -r flag'')
     \<in> set (fst (rm_loop os s False force files results w))"
proof (induction files arbitrary: results w)
  case Nil
  then show ?case by simp
next
  case (Cons f files)
  show ?case
  proof (cases "f = d")
    case True
    with Cons.prems(3) show ?thesis
      by (simp add: rm_loop_results_grow)
  next
    case False
    with Cons.prems have d: "d \<in> set files" by simp
    show ?thesis
    proof (cases "isdir os w (rm_path os s f)")
      case True
      with Cons.IH [OF Cons.prems(1) d Cons.prems(3)] show ?thesis by simp
    next
      case nodir: False
      obtain e w' where rm: "os_remove os w (rm_path os s f) = (e, w')"
        by (cases "os_remove os w (rm_path os s f)") auto
      have "isdir os w' (rm_path os s d)"
        using Cons.prems(1,3) nodir rm unfolding remove_keeps_directories_def
        by (metis snd_conv)
      from Cons.IH [OF Cons.prems(1) d this] nodir rm show ?thesis
        by (cases e) simp_all
    qed
  qed
qed

text \<open>
  Claim C7. When the arguments of \<open>rm\<close> hold none of \<open>-r\<close>, \<open>-rf\<close> and \<open>--recursive\<close>,
  an operand that is an existing directory is refused, wherever it stands among the
  arguments: the output is the lines of \<open>results\<close> joined, one of them says that the
  directory cannot be removed without \<open>-r\<close>, and the directory is still there after the
  command. The operands before it are removed first, so the file system is assumed to be
  one where \<open>os.remove\<close> of a path that is not a directory leaves the directories in
  place (\<open>remove_keeps_directories\<close>).
\<close>

theorem rm_refuses_directory:
  assumes "''-r'' \<notin> set args" and "''-rf'' \<notin> set args" and "''--recursive'' \<notin> set args"
    and "d \<in> set args" and "\<not> startswith d ''-''"
    and "isdir os w (rm_path os s d)"
    and "remove_keeps_directories os"
  shows
    "\<exists>results. fst (cmd_rm os w s args) = py_join newline results \<and>
       (''Cannot remove directory '' @ d @ '': use -r flag'') \<in> set results \<and>
       isdir os (snd (cmd_rm os w s args)) (rm_path os s d)"
proof -
  define force where "force = (''-f'' \<in> set args \<or> ''-rf'' \<in> set args \<or> ''--force'' \<in> set args)"
  define files where "files = filter (\<lambda>arg. \<not> startswith arg ''-'') args"
  have d: "d \<in> set files"
    using assms(4,5) by (simp add: files_def)
  then have ne: "files \<noteq> []" and args: "args \<noteq> []"
    using assms(4) by auto
  have cmd: "cmd_rm os w s args =
      (py_join newline (fst (rm_loop os s False force files [] w)),
       snd (rm_loop os s False force files [] w))"
    using assms(1,2,3) ne args
    by (simp add: cmd_rm_def force_def files_def Let_def split: prod.splits)
  show ?thesis
    unfolding cmd
    using rm_loop_refuses [OF assms(7) d assms(6)] rm_loop_keeps [OF assms(7) assms(6)]
    by auto
qed

theorem rm_refuses_directory_witness:
  "remove_keeps_directories demo_os \<and>
   isdir demo_os demo_world (rm_path demo_os (init demo_os demo_world) ''d'') \<and>
   cmd_rm demo_os demo_world (init demo_os demo_world) [''notes.txt'', ''-f'', ''d'']
     = (''Removed file: notes.txt'' @ newline @ ''Cannot remove directory d: use -r flag'',
        demo_world\<lparr>machine := ([''/'', ''/srv'', ''/srv/d'', ''/tmp'', ''/root''],
                                  [''/srv/d/-a'', ''/srv/d/.b''])\<rparr>) \<and>
   (\<exists>results. fst (cmd_rm demo_os demo_world (init demo_os demo_world) [''notes.txt'', ''-f'', ''d''])
        = py_join newline results \<and>
      ''Cannot remove directory d: use -r flag'' \<in> set results)"
proof -
  let ?s = "init demo_os demo_world"
  have keeps: "remove_keeps_directories demo_os"
    by (simp add: remove_keeps_directories_def demo_os_def demo_remove_def demo_isdir_def
          demo_resolve_def)
  have p: "rm_path demo_os ?s ''d'' = ''/srv/d''"
    by (simp add: rm_path_def demo_os_def startswith_def init_def demo_world_def)
  have dir: "isdir demo_os demo_world (rm_path demo_os ?s ''d'')"
    unfolding p by (simp add: demo_os_def demo_isdir_def demo_resolve_def startswith_def demo_world_def)
  have run: "cmd_rm demo_os demo_world ?s [''notes.txt'', ''-f'', ''d'']
     = (''Removed file: notes.txt'' @ newline @ ''Cannot remove directory d: use -r flag'',
        demo_world\<lparr>machine := ([''/'', ''/srv'', ''/srv/d'', ''/tmp'', ''/root''],
                                  [''/srv/d/-a'', ''/srv/d/.b''])\<rparr>)"
    by (simp add: cmd_rm_def startswith_def rm_path_def demo_os_def init_def demo_world_def
          demo_isdir_def demo_isfile_def demo_resolve_def demo_remove_def)
  from rm_refuses_directory [of "[''notes.txt'', ''-f'', ''d'']" "''d''" demo_os demo_world ?s] dir keeps
  have "\<exists>results. fst (cmd_rm demo_os demo_world ?s [''notes.txt'', ''-f'', ''d''])
        = py_join newline results \<and>
      ''Cannot remove directory d: use -r flag'' \<in> set results"
    by (auto simp: startswith_def)
  with keeps dir run show ?thesis by blast
qed

text \<open>
  Claim C8 fails on the code by a slip: \<open>is_last\<close> compares the index with the length
  of the listing before the entries that begin with a dot are left out. In the directory
  \<open>/srv/d\<close> of the small machine, with the entries \<open>-a\<close> and \<open>.b\<close>, the only entry that
  is drawn is \<open>-a\<close>, and it is drawn with the connector of an inner entry.
\<close>

theorem tree_last_shown_entry_drawn_as_inner:
  "cmd_tree demo_os demo_world (init demo_os demo_world) [''d'']
     = ''d'' @ newline @ tee_connector @ ''-a''"
  by (simp add: cmd_tree_def demo_os_def demo_world_def init_def startswith_def demo_isdir_def
        demo_isfile_def demo_resolve_def demo_listdir_def demo_basename_def Let_def newline_def
        tee_connector_def)

section \<open>Properties of the translator\<close>

subsection \<open>The matcher\<close>

lemma rx_match_length:
  "rx_match rs s groups start = Some g \<Longrightarrow> length g = length groups + n_groups rs"
proof (induction rs s groups start arbitrary: g rule: rx_match.induct)
  case (1 s groups start)
  then show ?case by (simp add: rx_match.simps(1) n_groups_def)
next
  case (2 l rs s groups start)
  have unf: "rx_match (Lit l # rs) s groups start =
      (if iprefix l s then rx_match rs (drop (length l) s) groups start else None)"
    by (rule rx_match.simps)
  from "2.prems" "2.IH" show ?case
    unfolding unf by (auto simp: n_groups_def split: if_splits)
next
  case (3 c rs s groups start)
  have unf: "rx_match (Lazy c # rs) s groups start =
     (case rx_match rs s groups start of
        Some g \<Rightarrow> Some g
      | None \<Rightarrow>
          (case s of
             [] \<Rightarrow> None
           | x # xs \<Rightarrow> if in_class c x then rx_match (Lazy c # rs) xs groups start else None))"
    by (rule rx_match.simps)
  from "3.prems" "3.IH" show ?case
    unfolding unf by (auto simp: n_groups_def split: option.splits list.splits if_splits)
next
  case (4 c rs s groups start)
  have unf: "rx_match (Plus c # rs) s groups start =
     (case s of
        [] \<Rightarrow> None
      | x # xs \<Rightarrow> if in_class c x then rx_match (Star c # rs) xs groups start else None)"
    by (rule rx_match.simps)
  from "4.prems" "4.IH" show ?case
    unfolding unf by (auto simp: n_groups_def split: list.splits if_splits)
next
  case (5 c rs s groups start)
  have unf: "rx_match (Star c # rs) s groups start =
     (case s of
        [] \<Rightarrow> rx_match rs s groups start
      | x # xs \<Rightarrow>
          if in_class c x then
            (case rx_match (Star c # rs) xs groups start of
               Some g \<Rightarrow> Some g
             | None \<Rightarrow> rx_match rs s groups start)
          else rx_match rs s groups start)"
    by (rule rx_match.simps)
  from "5.prems" "5.IH" show ?case
    unfolding unf by (auto simp: n_groups_def split: option.splits list.splits if_splits)
next
  case (6 ch rs s groups start)
  have unf: "rx_match (Opt ch # rs) s groups start =
     (case s of
        [] \<Rightarrow> rx_match rs s groups start
      | x # xs \<Rightarrow>
          if lower_chr x = lower_chr ch then
            (case rx_match rs xs groups start of
               Some g \<Rightarrow> Some g
             | None \<Rightarrow> rx_match rs s groups start)
          else rx_match rs s groups start)"
    by (rule rx_match.simps)
  from "6.prems" "6.IH" show ?case
    unfolding unf by (auto simp: n_groups_def split: option.splits list.splits if_splits)
next
  case (7 rs s groups start)
  then show ?case by (simp add: rx_match.simps(7))
next
  case (8 a as rs s groups start)
  have unf: "rx_match (Alt (a # as) # rs) s groups start =
     (case rx_match (Lit a # rs) s groups start of
        Some g \<Rightarrow> Some g
      | None \<Rightarrow> rx_match (Alt as # rs) s groups start)"
    by (rule rx_match.simps)
  from "8.prems" "8.IH" show ?case
    unfolding unf by (auto simp: n_groups_def split: option.splits)
next
  case (9 rs s groups start)
  have unf: "rx_match (Open # rs) s groups start = rx_match rs s groups s"
    by (rule rx_match.simps)
  from "9.prems" "9.IH" show ?case
    unfolding unf by (auto simp: n_groups_def)
next
  case (10 rs s groups start)
  have unf: "rx_match (Close # rs) s groups start =
     rx_match rs s (groups @ [take (length start - length s) start]) start"
    by (rule rx_match.simps)
  from "10.prems" "10.IH" show ?case
    unfolding unf by (auto simp: n_groups_def)
qed

lemma re_search_length: "re_search pattern s = Some g \<Longrightarrow> length g = n_groups pattern"
  by (induction s) (auto dest: rx_match_length split: option.splits)


lemma ends_with_tl: "ends_with inp (x # xs) \<Longrightarrow> ends_with inp xs"
  unfolding ends_with_def by (metis append.assoc append_Cons append_Nil)

lemma ends_with_Nil: "ends_with inp []"
  by (simp add: ends_with_def)

lemma ends_with_drop: "ends_with inp s \<Longrightarrow> ends_with inp (drop n s)"
  unfolding ends_with_def by (metis append.assoc append_take_drop_id)

lemma substring_take: "ends_with inp start \<Longrightarrow> substring (take n start) inp"
  unfolding substring_def ends_with_def by (metis append_take_drop_id)

lemma rx_match_substring:
  "rx_match rs s groups start = Some g \<Longrightarrow> ends_with inp s \<Longrightarrow> ends_with inp start \<Longrightarrow>
   \<forall>x \<in> set groups. substring x inp \<Longrightarrow> \<forall>x \<in> set g. substring x inp"
proof (induction rs s groups start arbitrary: g rule: rx_match.induct)
  case (1 s groups start)
  then show ?case by (simp add: rx_match.simps(1))
next
  case (2 l rs s groups start)
  have unf: "rx_match (Lit l # rs) s groups start =
      (if iprefix l s then rx_match rs (drop (length l) s) groups start else None)"
    by (rule rx_match.simps)
  from "2.prems"(1) have p: "iprefix l s"
    and m: "rx_match rs (drop (length l) s) groups start = Some g"
    unfolding unf by (simp_all split: if_splits)
  from "2.IH" [OF p m ends_with_drop [OF "2.prems"(2)] "2.prems"(3,4)] show ?case .
next
  case (3 c rs s groups start)
  have unf: "rx_match (Lazy c # rs) s groups start =
     (case rx_match rs s groups start of
        Some g \<Rightarrow> Some g
      | None \<Rightarrow>
          (case s of
             [] \<Rightarrow> None
           | x # xs \<Rightarrow> if in_class c x then rx_match (Lazy c # rs) xs groups start else None))"
    by (rule rx_match.simps)
  show ?case
  proof (cases "rx_match rs s groups start")
    case (Some g')
    with "3.prems"(1) have "rx_match rs s groups start = Some g"
      unfolding unf by simp
    with "3.IH"(1) "3.prems"(2-4) show ?thesis by blast
  next
    case None
    with "3.prems"(1) obtain x xs where s: "s = x # xs" and c: "in_class c x"
      and m: "rx_match (Lazy c # rs) xs groups start = Some g"
      unfolding unf by (auto split: list.splits if_splits)
    from "3.prems"(2) s have "ends_with inp xs"
      using ends_with_tl by blast
    with "3.IH"(2) None s c m "3.prems"(3-4) show ?thesis by blast
  qed
next
  case (4 c rs s groups start)
  have unf: "rx_match (Plus c # rs) s groups start =
     (case s of
        [] \<Rightarrow> None
      | x # xs \<Rightarrow> if in_class c x then rx_match (Star c # rs) xs groups start else None)"
    by (rule rx_match.simps)
  from "4.prems"(1) obtain x xs where s: "s = x # xs" and c: "in_class c x"
    and m: "rx_match (Star c # rs) xs groups start = Some g"
    unfolding unf by (auto split: list.splits if_splits)
  from "4.prems"(2) s have tl: "ends_with inp xs"
    using ends_with_tl by blast
  from "4.IH" [OF s c m tl "4.prems"(3,4)] show ?case .
next
  case (5 c rs s groups start)
  have unf: "rx_match (Star c # rs) s groups start =
     (case s of
        [] \<Rightarrow> rx_match rs s groups start
      | x # xs \<Rightarrow>
          if in_class c x then
            (case rx_match (Star c # rs) xs groups start of
               Some g \<Rightarrow> Some g
             | None \<Rightarrow> rx_match rs s groups start)
          else rx_match rs s groups start)"
    by (rule rx_match.simps)
  show ?case
  proof (cases s)
    case Nil
    with "5.prems"(1) have "rx_match rs s groups start = Some g"
      unfolding unf by simp
    with "5.IH"(1) Nil "5.prems"(2-4) show ?thesis by blast
  next
    case (Cons x xs)
    from "5.prems"(2) Cons have tl: "ends_with inp xs"
      using ends_with_tl by blast
    show ?thesis
    proof (cases "in_class c x")
      case False
      with "5.prems"(1) Cons have "rx_match rs s groups start = Some g"
        unfolding unf by simp
      with "5.IH"(4) Cons False "5.prems"(2-4) show ?thesis by blast
    next
      case True
      show ?thesis
      proof (cases "rx_match (Star c # rs) xs groups start")
        case None
        with "5.prems"(1) Cons True have "rx_match rs s groups start = Some g"
          unfolding unf by simp
        with "5.IH"(3) Cons True None "5.prems"(2-4) show ?thesis by blast
      next
        case (Some g')
        with "5.prems"(1) Cons True have "rx_match (Star c # rs) xs groups start = Some g"
          unfolding unf by simp
        with "5.IH"(2) Cons True tl "5.prems"(3-4) show ?thesis by blast
      qed
    qed
  qed
next
  case (6 ch rs s groups start)
  have unf: "rx_match (Opt ch # rs) s groups start =
     (case s of
        [] \<Rightarrow> rx_match rs s groups start
      | x # xs \<Rightarrow>
          if lower_chr x = lower_chr ch then
            (case rx_match rs xs groups start of
               Some g \<Rightarrow> Some g
             | None \<Rightarrow> rx_match rs s groups start)
          else rx_match rs s groups start)"
    by (rule rx_match.simps)
  show ?case
  proof (cases s)
    case Nil
    with "6.prems"(1) have "rx_match rs s groups start = Some g"
      unfolding unf by simp
    with "6.IH"(1) Nil "6.prems"(2-4) show ?thesis by blast
  next
    case (Cons x xs)
    from "6.prems"(2) Cons have tl: "ends_with inp xs"
      using ends_with_tl by blast
    show ?thesis
    proof (cases "lower_chr x = lower_chr ch")
      case False
      with "6.prems"(1) Cons have "rx_match rs s groups start = Some g"
        unfolding unf by simp
      with "6.IH"(4) Cons False "6.prems"(2-4) show ?thesis by blast
    next
      case True
      show ?thesis
      proof (cases "rx_match rs xs groups start")
        case None
        with "6.prems"(1) Cons True have "rx_match rs s groups start = Some g"
          unfolding unf by simp
        with "6.IH"(3) Cons True None "6.prems"(2-4) show ?thesis by blast
      next
        case (Some g')
        with "6.prems"(1) Cons True have "rx_match rs xs groups start = Some g"
          unfolding unf by simp
        with "6.IH"(2) Cons True tl "6.prems"(3-4) show ?thesis by blast
      qed
    qed
  qed
next
  case (7 rs s groups start)
  then show ?case by (simp add: rx_match.simps(7))
next
  case (8 a as rs s groups start)
  have unf: "rx_match (Alt (a # as) # rs) s groups start =
     (case rx_match (Lit a # rs) s groups start of
        Some g \<Rightarrow> Some g
      | None \<Rightarrow> rx_match (Alt as # rs) s groups start)"
    by (rule rx_match.simps)
  show ?case
  proof (cases "rx_match (Lit a # rs) s groups start")
    case None
    with "8.prems"(1) have m: "rx_match (Alt as # rs) s groups start = Some g"
      unfolding unf by simp
    from "8.IH"(2) [OF None m "8.prems"(2,3,4)] show ?thesis .
  next
    case (Some g')
    with "8.prems"(1) have m: "rx_match (Lit a # rs) s groups start = Some g"
      unfolding unf by simp
    from "8.IH"(1) [OF m "8.prems"(2,3,4)] show ?thesis .
  qed
next
  case (9 rs s groups start)
  have unf: "rx_match (Open # rs) s groups start = rx_match rs s groups s"
    by (rule rx_match.simps)
  from "9.prems"(1) have m: "rx_match rs s groups s = Some g"
    unfolding unf .
  from "9.IH" [OF m "9.prems"(2) "9.prems"(2) "9.prems"(4)] show ?case .
next
  case (10 rs s groups start)
  have unf: "rx_match (Close # rs) s groups start =
     rx_match rs s (groups @ [take (length start - length s) start]) start"
    by (rule rx_match.simps)
  from "10.prems"(1)
  have m: "rx_match rs s (groups @ [take (length start - length s) start]) start = Some g"
    unfolding unf .
  from "10.prems"(4) substring_take [OF "10.prems"(3), of "length start - length s"]
  have "\<forall>x \<in> set (groups @ [take (length start - length s) start]). substring x inp"
    by simp
  from "10.IH" [OF m "10.prems"(2,3) this] show ?case .
qed

lemma re_search_substring_aux:
  "re_search pattern s = Some g \<Longrightarrow> ends_with inp s \<Longrightarrow> \<forall>x \<in> set g. substring x inp"
proof (induction s)
  case Nil
  then show ?case
    using rx_match_substring [of pattern "[]" "[]" "[]" g inp] by (simp add: ends_with_Nil)
next
  case (Cons a s)
  show ?case
  proof (cases "rx_match pattern (a # s) [] []")
    case None
    with Cons ends_with_tl [OF Cons.prems(2)] show ?thesis by simp
  next
    case (Some g')
    with Cons.prems have m: "rx_match pattern (a # s) [] [] = Some g" by simp
    show ?thesis
      using rx_match_substring [OF m Cons.prems(2) ends_with_Nil] by simp
  qed
qed

lemma re_search_substring:
  "re_search pattern s = Some g \<Longrightarrow> x \<in> set g \<Longrightarrow> substring x s"
  using re_search_substring_aux [of pattern s g s] by (auto simp: ends_with_def)

lemma substring_set: "substring x s \<Longrightarrow> set x \<subseteq> set s"
  by (auto simp: substring_def)

subsection \<open>The loops over the pattern table\<close>

lemma find_append:
  "find P (xs @ ys) = (case find P xs of None \<Rightarrow> find P ys | Some x \<Rightarrow> Some x)"
  by (induction xs) auto

lemma find_map_pair:
  "find (\<lambda>r. re_matches (fst r) nl_input) (map (\<lambda>p. (p, c)) ps) =
     map_option (\<lambda>p. (p, c)) (find (\<lambda>p. re_matches p nl_input) ps)"
  by (induction ps) auto

lemma match_patterns_find:
  "match_patterns natural_language nl_input command patterns =
     map_option (\<lambda>p. table_result natural_language nl_input (p, command))
       (find (\<lambda>p. re_matches p nl_input) patterns)"
  by (induction patterns) (auto simp: table_result_def re_matches_def split: option.splits)

lemma match_dicts_find:
  "match_dicts natural_language nl_input pattern_dicts =
     map_option (table_result natural_language nl_input)
       (find (\<lambda>r. re_matches (fst r) nl_input)
          (concat (map (\<lambda>(patterns, command). map (\<lambda>pattern. (pattern, command)) patterns)
                     pattern_dicts)))"
proof (induction pattern_dicts)
  case Nil
  then show ?case by simp
next
  case (Cons d ds)
  obtain patterns command where d: "d = (patterns, command)" by (cases d)
  show ?case
    unfolding d
    by (cases "find (\<lambda>p. re_matches p nl_input) patterns")
       (simp_all add: Cons.IH match_patterns_find find_append find_map_pair)
qed

lemma match_categories_find:
  "match_categories natural_language nl_input categories =
     map_option (table_result natural_language nl_input)
       (find (\<lambda>r. re_matches (fst r) nl_input)
          (concat (map (\<lambda>(category, patterns_list).
               concat (map (\<lambda>(patterns, command). map (\<lambda>pattern. (pattern, command)) patterns)
                         patterns_list))
            categories)))"
proof (induction categories)
  case Nil
  then show ?case by simp
next
  case (Cons c cs)
  obtain category patterns_list where c: "c = (category, patterns_list)" by (cases c)
  show ?case
    unfolding c
    by (cases "find (\<lambda>r. re_matches (fst r) nl_input)
                 (concat (map (\<lambda>(patterns, command). map (\<lambda>pattern. (pattern, command)) patterns)
                            patterns_list))")
       (simp_all add: Cons.IH find_append match_dicts_find)
qed

lemma match_table_find:
  "match_categories natural_language nl_input command_patterns =
     map_option (table_result natural_language nl_input)
       (find (\<lambda>r. re_matches (fst r) nl_input) flat_patterns)"
  unfolding flat_patterns_def by (rule match_categories_find)

subsection \<open>Templates and letters\<close>

lemma lowercase_append [simp]: "lowercase (a @ b) = (lowercase a \<and> lowercase b)"
  by (simp add: lowercase_def)

lemma lowercase_Nil [simp]: "lowercase []"
  by (simp add: lowercase_def)

lemma lowercase_subset: "set x \<subseteq> set s \<Longrightarrow> lowercase s \<Longrightarrow> lowercase x"
  by (auto simp: lowercase_def list_all_iff)

lemma lowercase_substring: "substring x s \<Longrightarrow> lowercase s \<Longrightarrow> lowercase x"
  by (auto simp: substring_def)

lemma lower_chr_not_upper: "\<not> is_upper (lower_chr c)"
  by (auto simp: lower_chr_def is_upper_def ascii_uppercase_def ascii_lowercase_def)

lemma lowercase_py_lower: "lowercase (py_lower s)"
  by (simp add: lowercase_def py_lower_def list_all_iff lower_chr_not_upper)

lemma py_format_total:
  "fields_below (length params) t \<Longrightarrow> \<exists>c. py_format t params = Inr c"
proof (induction t)
  case Nil
  then show ?case by simp
next
  case (Cons a t)
  then show ?case by (cases a) auto
qed

lemma py_format_lowercase:
  "py_format t params = Inr c \<Longrightarrow> texts_lowercase t \<Longrightarrow> \<forall>x \<in> set params. lowercase x \<Longrightarrow>
   lowercase c"
proof (induction t arbitrary: c)
  case Nil
  then show ?case by simp
next
  case (Cons a t)
  then show ?case
    by (cases a) (auto simp: list_all_iff split: sum.splits if_splits)
qed

lemma flat_patterns_well_formed:
  "\<forall>rule \<in> set flat_patterns. fields_below (n_groups (fst rule)) (snd rule) \<and>
     texts_lowercase (snd rule)"
  by code_simp

lemma n_groups_multi_step:
  "n_groups create_and_move_re = 2" "n_groups copy_by_extension_re = 2"
  "n_groups delete_all_in_dir_re = 1" "n_groups find_and_delete_re = 1"
  by (simp_all add: n_groups_def create_and_move_re_def copy_by_extension_re_def
        delete_all_in_dir_re_def find_and_delete_re_def)

lemma length_two: "length g = 2 \<Longrightarrow> \<exists>a b. g = [a, b]"
  by (cases g; cases "tl g") auto

lemma length_one: "length g = Suc 0 \<Longrightarrow> \<exists>a. g = [a]"
  by (cases g) auto

subsection \<open>The keyword fallback\<close>

lemma split_ws_chars: "w \<in> set (split_ws s cur) \<Longrightarrow> set w \<subseteq> set s \<union> set cur"
proof (induction s arbitrary: cur)
  case Nil
  then show ?case by (auto split: if_splits)
next
  case (Cons a s)
  show ?case
  proof (cases "py_isspace a")
    case True
    with Cons.prems have "w = cur \<or> w \<in> set (split_ws s [])"
      by (auto split: if_splits)
    with Cons.IH [of "[]"] show ?thesis by auto
  next
    case False
    with Cons.prems have "w \<in> set (split_ws s (cur @ [a]))" by simp
    from Cons.IH [OF this] show ?thesis by auto
  qed
qed

lemma py_split_lowercase: "lowercase s \<Longrightarrow> w \<in> set (py_split s) \<Longrightarrow> lowercase w"
  using split_ws_chars [of w s "[]"] by (simp add: py_split_def lowercase_subset)

lemma next_after_mem: "next_after ws ks = Some v \<Longrightarrow> v \<in> set ks"
  by (induction ws ks rule: next_after.induct) (auto split: if_splits)

lemma find_mem: "find P xs = Some x \<Longrightarrow> x \<in> set xs"
  by (induction xs) (auto split: if_splits)

lemma keywords_nonempty: "interpret_by_keywords nl_input = Some k \<Longrightarrow> k \<noteq> []"
  by (auto simp: interpret_by_keywords_def Let_def split: if_splits option.splits)

lemma lowercase_Cons: "lowercase (c # s) = (\<not> is_upper c \<and> lowercase s)"
  by (simp add: lowercase_def)

lemma keywords_lowercase:
  assumes "lowercase nl_input" and "interpret_by_keywords nl_input = Some k"
  shows "lowercase k"
proof -
  have kw: "lowercase w" if "w \<in> set (py_split nl_input)" for w
    using assms(1) that by (rule py_split_lowercase)
  have na: "lowercase v" if "next_after ws (py_split nl_input) = Some v" for ws v
    using kw next_after_mem [OF that] by blast
  have fi: "lowercase v" if "find P (py_split nl_input) = Some v" for P v
    using kw find_mem [OF that] by blast
  from assms(2) show ?thesis
    by (auto simp: interpret_by_keywords_def Let_def lowercase_Cons is_upper_def
               ascii_uppercase_def na fi
             split: if_splits option.splits)
qed

subsection \<open>The multi-step commands\<close>

lemma create_and_move_groups:
  "re_search create_and_move_re s = Some g \<Longrightarrow> \<exists>a b. g = [a, b]"
  using re_search_length [of create_and_move_re s g] length_two [of g]
  by (simp add: n_groups_multi_step)

lemma copy_by_extension_groups:
  "re_search copy_by_extension_re s = Some g \<Longrightarrow> \<exists>a b. g = [a, b]"
  using re_search_length [of copy_by_extension_re s g] length_two [of g]
  by (simp add: n_groups_multi_step)

lemma delete_all_in_dir_groups:
  "re_search delete_all_in_dir_re s = Some g \<Longrightarrow> \<exists>a. g = [a]"
  using re_search_length [of delete_all_in_dir_re s g] length_one [of g]
  by (simp add: n_groups_multi_step)

lemma find_and_delete_groups:
  "re_search find_and_delete_re s = Some g \<Longrightarrow> \<exists>a. g = [a]"
  using re_search_length [of find_and_delete_re s g] length_one [of g]
  by (simp add: n_groups_multi_step)

lemma handle_complex_1:
  "re_search create_and_move_re s = Some [folder_name, file_name] \<Longrightarrow>
   handle_complex_commands s =
     Inr (Some (''mkdir '' @ folder_name @ '' && mv '' @ file_name @ '' '' @ folder_name @ ''/''))"
  by (simp add: handle_complex_commands_def)

lemma handle_complex_2:
  "re_search create_and_move_re s = None \<Longrightarrow>
   re_search copy_by_extension_re s = Some [extension, destination] \<Longrightarrow>
   handle_complex_commands s = Inr (Some (''cp *'' @ extension @ '' '' @ destination @ ''/''))"
  by (simp add: handle_complex_commands_def)

lemma handle_complex_3:
  "re_search create_and_move_re s = None \<Longrightarrow> re_search copy_by_extension_re s = None \<Longrightarrow>
   re_search delete_all_in_dir_re s = Some [directory] \<Longrightarrow>
   handle_complex_commands s = Inr (Some (''rm '' @ directory @ ''/*''))"
  by (simp add: handle_complex_commands_def)

lemma handle_complex_4:
  "re_search create_and_move_re s = None \<Longrightarrow> re_search copy_by_extension_re s = None \<Longrightarrow>
   re_search delete_all_in_dir_re s = None \<Longrightarrow>
   re_search find_and_delete_re s = Some [filename] \<Longrightarrow>
   handle_complex_commands s =
     Inr (Some (''find . -name '' @ [CHR 0x22] @ filename @ [CHR 0x22] @ '' -delete''))"
  by (simp add: handle_complex_commands_def)

lemma handle_complex_0:
  "re_search create_and_move_re s = None \<Longrightarrow> re_search copy_by_extension_re s = None \<Longrightarrow>
   re_search delete_all_in_dir_re s = None \<Longrightarrow> re_search find_and_delete_re s = None \<Longrightarrow>
   handle_complex_commands s = Inr None"
  by (simp add: handle_complex_commands_def)

lemma matches_multi_step_iff:
  "matches_multi_step s \<longleftrightarrow>
     re_search create_and_move_re s \<noteq> None \<or> re_search copy_by_extension_re s \<noteq> None \<or>
     re_search delete_all_in_dir_re s \<noteq> None \<or> re_search find_and_delete_re s \<noteq> None"
  by (simp add: matches_multi_step_def multi_step_patterns_def re_matches_def)

lemma handle_complex_cases:
  "(\<not> matches_multi_step s \<and> handle_complex_commands s = Inr None) \<or>
   (matches_multi_step s \<and>
    (\<exists>c. handle_complex_commands s = Inr (Some c) \<and> c \<noteq> [] \<and> (lowercase s \<longrightarrow> lowercase c)))"
proof (cases "re_search create_and_move_re s")
  case (Some g)
  then obtain a b where g: "re_search create_and_move_re s = Some [a, b]"
    using create_and_move_groups by blast
  then have "lowercase s \<Longrightarrow> lowercase a \<and> lowercase b"
    using re_search_substring [OF g] lowercase_substring by auto
  with g handle_complex_1 [OF g] show ?thesis
    by (auto simp: matches_multi_step_iff lowercase_Cons is_upper_def ascii_uppercase_def)
next
  case n1: None
  show ?thesis
  proof (cases "re_search copy_by_extension_re s")
    case (Some g)
    then obtain a b where g: "re_search copy_by_extension_re s = Some [a, b]"
      using copy_by_extension_groups by blast
    then have "lowercase s \<Longrightarrow> lowercase a \<and> lowercase b"
      using re_search_substring [OF g] lowercase_substring by auto
    with g handle_complex_2 [OF n1 g] show ?thesis
      by (auto simp: matches_multi_step_iff lowercase_Cons is_upper_def ascii_uppercase_def)
  next
    case n2: None
    show ?thesis
    proof (cases "re_search delete_all_in_dir_re s")
      case (Some g)
      then obtain a where g: "re_search delete_all_in_dir_re s = Some [a]"
        using delete_all_in_dir_groups by blast
      then have "lowercase s \<Longrightarrow> lowercase a"
        using re_search_substring [OF g] lowercase_substring by auto
      with g handle_complex_3 [OF n1 n2 g] show ?thesis
        by (auto simp: matches_multi_step_iff lowercase_Cons is_upper_def ascii_uppercase_def)
    next
      case n3: None
      show ?thesis
      proof (cases "re_search find_and_delete_re s")
        case (Some g)
        then obtain a where g: "re_search find_and_delete_re s = Some [a]"
          using find_and_delete_groups by blast
        then have "lowercase s \<Longrightarrow> lowercase a"
          using re_search_substring [OF g] lowercase_substring by auto
        with g handle_complex_4 [OF n1 n2 n3 g] show ?thesis
          by (auto simp: matches_multi_step_iff lowercase_Cons is_upper_def ascii_uppercase_def)
      next
        case n4: None
        with n1 n2 n3 handle_complex_0 [OF n1 n2 n3 n4] show ?thesis
          by (simp add: matches_multi_step_iff)
      qed
    qed
  qed
qed

subsection \<open>Trimming and lower case\<close>








lemma lowercase_nl_input: "lowercase (py_lower (py_strip s))"
  by (rule lowercase_py_lower)

subsection \<open>The four outcomes of \<open>interpret_command\<close>\<close>

lemma truthy_Some: "truthy (Some c) = (c \<noteq> [])"
  by (simp add: truthy_def)

lemma truthy_None: "\<not> truthy None"
  by (simp add: truthy_def)

lemma table_rule_result:
  assumes "find (\<lambda>r. re_matches (fst r) s) flat_patterns = Some rule"
  shows "\<exists>params command. re_search (fst rule) s = Some params \<and>
           py_format (snd rule) params = Inr command \<and>
           (lowercase s \<longrightarrow> lowercase command) \<and>
           table_result phrase s rule = Inr (command, interpreted_as phrase command)"
proof -
  from assms have mem: "rule \<in> set flat_patterns"
    by (rule find_mem)
  from assms have "re_matches (fst rule) s"
    by (auto simp: find_Some_iff)
  then obtain params where params: "re_search (fst rule) s = Some params"
    by (auto simp: re_matches_def)
  from mem flat_patterns_well_formed
  have ok: "fields_below (n_groups (fst rule)) (snd rule)" and low: "texts_lowercase (snd rule)"
    by blast+
  from ok re_search_length [OF params] have "fields_below (length params) (snd rule)"
    by simp
  then obtain command where command: "py_format (snd rule) params = Inr command"
    using py_format_total by blast
  have "lowercase command" if "lowercase s"
  proof -
    have "\<forall>x \<in> set params. lowercase x"
      using re_search_substring [OF params] lowercase_substring that by blast
    with command low show ?thesis by (rule py_format_lowercase)
  qed
  with params command show ?thesis
    by (auto simp: table_result_def)
qed

lemma interpret_command_cases:
  assumes nl: "py_lower (py_strip phrase) = s"
  obtains
    (multi) c where "matches_multi_step s" and "handle_complex_commands s = Inr (Some c)"
      and "lowercase c" and "interpret_command phrase = Inr (c, multi_step)"
  | (table) rule params command where "\<not> matches_multi_step s"
      and "find (\<lambda>r. re_matches (fst r) s) flat_patterns = Some rule"
      and "re_search (fst rule) s = Some params"
      and "py_format (snd rule) params = Inr command" and "lowercase command"
      and "interpret_command phrase = Inr (command, interpreted_as phrase command)"
  | (keyword) k where "\<not> matches_multi_step s" and "\<not> matches_table s"
      and "interpret_by_keywords s = Some k" and "lowercase k"
      and "interpret_command phrase = Inr (k, using_keywords)"
  | (passthrough) "\<not> matches_multi_step s" and "\<not> matches_table s"
      and "interpret_by_keywords s = None"
      and "interpret_command phrase = Inr (phrase, no_interpretation)"
proof -
  have low: "lowercase s"
    using lowercase_py_lower nl by blast
  from handle_complex_cases [of s] show thesis
  proof (elim disjE conjE exE)
    fix c
    assume m: "matches_multi_step s" and c: "handle_complex_commands s = Inr (Some c)"
      and ne: "c \<noteq> []" and lc: "lowercase s \<longrightarrow> lowercase c"
    have "interpret_command phrase = Inr (c, multi_step)"
      by (simp add: interpret_command_def nl c truthy_Some ne multi_step_def)
    with m c lc low show thesis by (auto intro: multi)
  next
    assume m: "\<not> matches_multi_step s" and c: "handle_complex_commands s = Inr None"
    have step: "interpret_command phrase =
        (case find (\<lambda>r. re_matches (fst r) s) flat_patterns of
           Some rule \<Rightarrow> table_result phrase s rule
         | None \<Rightarrow>
             (if truthy (interpret_by_keywords s)
              then Inr (the (interpret_by_keywords s), using_keywords)
              else Inr (phrase, no_interpretation)))"
      by (simp add: interpret_command_def nl c truthy_None match_table_find Let_def
            using_keywords_def split: option.splits)
    show thesis
    proof (cases "find (\<lambda>r. re_matches (fst r) s) flat_patterns")
      case (Some rule)
      from table_rule_result [OF Some, of phrase] low obtain params command
        where "re_search (fst rule) s = Some params"
          and "py_format (snd rule) params = Inr command" and "lowercase command"
          and "table_result phrase s rule = Inr (command, interpreted_as phrase command)"
        by blast
      with m Some step show thesis by (auto intro: table)
    next
      case None
      then have nt: "\<not> matches_table s"
        by (auto simp: find_None_iff matches_table_def)
      show thesis
      proof (cases "interpret_by_keywords s")
        case nk: None
        with m nt None step show thesis by (auto intro: passthrough simp: truthy_None)
      next
        case (Some k)
        with keywords_nonempty [OF Some] keywords_lowercase [OF low Some] m nt None step
        show thesis by (auto intro: keyword simp: truthy_Some)
      qed
    qed
  qed
qed

text \<open>
  Claim C2. \<open>interpret_command\<close> goes through its stages in a fixed order, and the
  first that succeeds gives the result. A phrase whose trimmed, lower-case form matches a
  multi-step pattern gets the command of \<open>_handle_complex_commands\<close>, whether or not a
  pattern of the table matches as well; the four multi-step patterns are tried in the
  order in which they are listed. Otherwise the first pattern of the table that matches,
  in the order of the declaration (\<open>flat_patterns\<close>), gives the command, its template
  filled with the groups. Otherwise the keyword fallback gives it, and when that returns
  nothing the phrase itself is returned.
\<close>

theorem interpret_command_stage_order:
  "let nl_input = py_lower (py_strip natural_language) in
   (matches_multi_step nl_input \<longrightarrow>
      (\<exists>c. handle_complex_commands nl_input = Inr (Some c) \<and>
           interpret_command natural_language = Inr (c, multi_step))) \<and>
   (\<forall>folder_name file_name.
      re_search create_and_move_re nl_input = Some [folder_name, file_name] \<longrightarrow>
      interpret_command natural_language =
        Inr (''mkdir '' @ folder_name @ '' && mv '' @ file_name @ '' '' @ folder_name @ ''/'',
             multi_step)) \<and>
   (\<forall>extension destination.
      re_search create_and_move_re nl_input = None \<and>
      re_search copy_by_extension_re nl_input = Some [extension, destination] \<longrightarrow>
      interpret_command natural_language =
        Inr (''cp *'' @ extension @ '' '' @ destination @ ''/'', multi_step)) \<and>
   (\<forall>directory.
      re_search create_and_move_re nl_input = None \<and>
      re_search copy_by_extension_re nl_input = None \<and>
      re_search delete_all_in_dir_re nl_input = Some [directory] \<longrightarrow>
      interpret_command natural_language = Inr (''rm '' @ directory @ ''/*'', multi_step)) \<and>
   (\<forall>filename.
      re_search create_and_move_re nl_input = None \<and>
      re_search copy_by_extension_re nl_input = None \<and>
      re_search delete_all_in_dir_re nl_input = None \<and>
      re_search find_and_delete_re nl_input = Some [filename] \<longrightarrow>
      interpret_command natural_language =
        Inr (''find . -name '' @ [CHR 0x22] @ filename @ [CHR 0x22] @ '' -delete'', multi_step)) \<and>
   (\<forall>rule.
      \<not> matches_multi_step nl_input \<and>
      find (\<lambda>r. re_matches (fst r) nl_input) flat_patterns = Some rule \<longrightarrow>
      (\<exists>params command.
         re_search (fst rule) nl_input = Some params \<and>
         py_format (snd rule) params = Inr command \<and>
         interpret_command natural_language
           = Inr (command, interpreted_as natural_language command))) \<and>
   (\<forall>k.
      \<not> matches_multi_step nl_input \<and> \<not> matches_table nl_input \<and>
      interpret_by_keywords nl_input = Some k \<longrightarrow>
      interpret_command natural_language = Inr (k, using_keywords)) \<and>
   (\<not> matches_multi_step nl_input \<and> \<not> matches_table nl_input \<and>
      interpret_by_keywords nl_input = None \<longrightarrow>
      interpret_command natural_language = Inr (natural_language, no_interpretation))"
proof -
  define s where "s = py_lower (py_strip natural_language)"
  then have nl: "py_lower (py_strip natural_language) = s" by simp
  have none_iff: "find (\<lambda>r. re_matches (fst r) s) flat_patterns = None \<longleftrightarrow> \<not> matches_table s"
    by (auto simp: find_None_iff matches_table_def)
  have run: "interpret_command natural_language = Inr (c, multi_step)"
    if "handle_complex_commands s = Inr (Some c)" for c
  proof -
    from that handle_complex_cases [of s] have "matches_multi_step s" by auto
    with that show ?thesis
      by (cases rule: interpret_command_cases [OF nl]) auto
  qed
  have a: "matches_multi_step s \<longrightarrow>
      (\<exists>c. handle_complex_commands s = Inr (Some c) \<and>
           interpret_command natural_language = Inr (c, multi_step))"
    by (cases rule: interpret_command_cases [OF nl]) auto
  have b1: "interpret_command natural_language =
        Inr (''mkdir '' @ folder_name @ '' && mv '' @ file_name @ '' '' @ folder_name @ ''/'',
             multi_step)"
    if "re_search create_and_move_re s = Some [folder_name, file_name]" for folder_name file_name
    using run [OF handle_complex_1 [OF that]] .
  have b2: "interpret_command natural_language =
        Inr (''cp *'' @ extension @ '' '' @ destination @ ''/'', multi_step)"
    if "re_search create_and_move_re s = None"
      and "re_search copy_by_extension_re s = Some [extension, destination]"
    for extension destination
    using run [OF handle_complex_2 [OF that]] .
  have b3: "interpret_command natural_language = Inr (''rm '' @ directory @ ''/*'', multi_step)"
    if "re_search create_and_move_re s = None" and "re_search copy_by_extension_re s = None"
      and "re_search delete_all_in_dir_re s = Some [directory]"
    for directory
    using run [OF handle_complex_3 [OF that]] .
  have b4: "interpret_command natural_language =
        Inr (''find . -name '' @ [CHR 0x22] @ filename @ [CHR 0x22] @ '' -delete'', multi_step)"
    if "re_search create_and_move_re s = None" and "re_search copy_by_extension_re s = None"
      and "re_search delete_all_in_dir_re s = None"
      and "re_search find_and_delete_re s = Some [filename]"
    for filename
    using run [OF handle_complex_4 [OF that]] .
  have c: "\<exists>params command.
         re_search (fst rule) s = Some params \<and>
         py_format (snd rule) params = Inr command \<and>
         interpret_command natural_language
           = Inr (command, interpreted_as natural_language command)"
    if "\<not> matches_multi_step s"
      and "find (\<lambda>r. re_matches (fst r) s) flat_patterns = Some rule" for rule
    using that none_iff by (cases rule: interpret_command_cases [OF nl]) auto
  have d: "interpret_command natural_language = Inr (k, using_keywords)"
    if "\<not> matches_multi_step s" and "\<not> matches_table s" and "interpret_by_keywords s = Some k"
    for k
    using that none_iff by (cases rule: interpret_command_cases [OF nl]) auto
  have e: "interpret_command natural_language = Inr (natural_language, no_interpretation)"
    if "\<not> matches_multi_step s" and "\<not> matches_table s" and "interpret_by_keywords s = None"
    using that none_iff by (cases rule: interpret_command_cases [OF nl]) auto
  show ?thesis
    unfolding Let_def s_def [symmetric]
    using a b1 b2 b3 b4 c d e by blast
qed


theorem interpret_command_stage_order_witness:
  "matches_multi_step ''delete all files in temp'' \<and>
   matches_table ''delete all files in temp'' \<and>
   match_categories ''Delete all files in temp'' ''delete all files in temp'' command_patterns
     = Some (Inr (''rm s'', interpreted_as ''Delete all files in temp'' ''rm s'')) \<and>
   interpret_command ''Delete all files in temp'' = Inr (''rm temp/*'', multi_step) \<and>
   interpret_command ''LS'' = Inr (''ls'', interpreted_as ''LS'' ''ls'') \<and>
   interpret_command ''create file'' = Inr (''touch newfile.txt'', using_keywords) \<and>
   interpret_command ''Hi'' = Inr (''Hi'', no_interpretation)"
proof -
  have n1: "py_lower (py_strip ''Delete all files in temp'') = ''delete all files in temp''"
    and n2: "py_lower (py_strip ''LS'') = ''ls''"
    and n3: "py_lower (py_strip ''create file'') = ''create file''"
    and n4: "py_lower (py_strip ''Hi'') = ''hi''"
    by code_simp+
  have s1: "re_search create_and_move_re ''delete all files in temp'' = None"
    and s2: "re_search copy_by_extension_re ''delete all files in temp'' = None"
    and s3: "re_search delete_all_in_dir_re ''delete all files in temp'' = Some [''temp'']"
    by code_simp+
  have m1: "matches_multi_step ''delete all files in temp''"
    using s3 by (simp add: matches_multi_step_iff)
  have t1: "match_categories ''Delete all files in temp'' ''delete all files in temp''
              command_patterns
            = Some (Inr (''rm s'', interpreted_as ''Delete all files in temp'' ''rm s''))"
    by code_simp
  then have mt1: "matches_table ''delete all files in temp''"
    by (cases "find (\<lambda>r. re_matches (fst r) ''delete all files in temp'') flat_patterns")
       (auto simp: match_table_find matches_table_def find_Some_iff)
  have a: "interpret_command ''Delete all files in temp'' = Inr (''rm temp/*'', multi_step)"
    using interpret_command_stage_order [of "''Delete all files in temp''"] s1 s2 s3
    unfolding Let_def n1 by simp
  have m2: "\<not> matches_multi_step ''ls''" and m3: "\<not> matches_multi_step ''create file''"
    and m4: "\<not> matches_multi_step ''hi''"
    unfolding matches_multi_step_def by code_simp+
  have f2: "find (\<lambda>r. re_matches (fst r) ''ls'') flat_patterns = Some ([Lit ''ls''], [Text ''ls''])"
    by code_simp
  have b: "interpret_command ''LS'' = Inr (''ls'', interpreted_as ''LS'' ''ls'')"
    using interpret_command_stage_order [of "''LS''"] m2 f2
    unfolding Let_def n2 by auto
  have t3: "\<not> matches_table ''create file''" and t4: "\<not> matches_table ''hi''"
    unfolding matches_table_def by code_simp+
  have k3: "interpret_by_keywords ''create file'' = Some ''touch newfile.txt''"
    and k4: "interpret_by_keywords ''hi'' = None"
    unfolding any_in_def interpret_by_keywords_def by code_simp+
  have c: "interpret_command ''create file'' = Inr (''touch newfile.txt'', using_keywords)"
    using interpret_command_stage_order [of "''create file''"] m3 t3 k3
    unfolding Let_def n3 by simp
  have d: "interpret_command ''Hi'' = Inr (''Hi'', no_interpretation)"
    using interpret_command_stage_order [of "''Hi''"] m4 t4 k4
    unfolding Let_def n4 by simp
  from m1 mt1 t1 a b c d show ?thesis by blast
qed


end
